theory Spec2Isabelle
  imports Main "HOL-Library.Product_Lexorder" "HOL-Library.Multiset"
begin

section \<open>The HTTP storage client of Tahoe-LAFS (allmydata/storage/http_client.py)\<close>

text \<open>
  A shallow embedding of \<^verbatim>\<open>http_client.py\<close>. Python \<^verbatim>\<open>bytes\<close> and \<^verbatim>\<open>str\<close> are
  both lists of 8-bit characters, a character above 127 of a \<^verbatim>\<open>str\<close> standing for any code
  point outside ASCII; a raised exception is the \<open>Inl\<close> branch of a sum; the network behind
  \<^verbatim>\<open>treq.request\<close> is an explicit world state threaded through every call. A call that is
  awaited (\<^verbatim>\<open>yield\<close> under \<^verbatim>\<open>inlineCallbacks\<close>) is a call whose result is taken when it is
  there; the body of a response is taken as received with it.
\<close>

subsection \<open>Python values and exceptions\<close>

type_synonym bytes = string
type_synonym str = string

text \<open>
  The values \<^verbatim>\<open>cbor2.loads\<close> hands to the client, restricted to the types the storage
  protocol exchanges. A set carries the list of its elements in iteration order.
\<close>

datatype pyobj =
    PNone
  | PInt int
  | PBytes bytes
  | PStr str
  | PList "pyobj list"
  | PDict "(pyobj \<times> pyobj) list"
  | PSet "pyobj list"

datatype error =
    ClientException int "bytes option"
  | AssertionError
  | IndexError
  | KeyError pyobj
  | TypeError
  | ValueError
  | UnicodeEncodeError
  | UnicodeDecodeError
  | CBORDecodeError
  | TransportError

text \<open>\<^verbatim>\<open>obj[key]\<close> for a text key: only a dict can be subscripted by a string.\<close>

fun py_getitem :: "pyobj \<Rightarrow> str \<Rightarrow> error + pyobj" where
  "py_getitem (PDict kvs) key =
     (case map_of kvs (PStr key) of
        None \<Rightarrow> Inl (KeyError (PStr key))
      | Some v \<Rightarrow> Inr v)"
| "py_getitem _ key = Inl TypeError"

text \<open>\<^verbatim>\<open>for x in obj\<close>: the elements the loop visits, or \<^verbatim>\<open>TypeError\<close>.\<close>

fun py_iter :: "pyobj \<Rightarrow> error + pyobj list" where
  "py_iter (PList xs) = Inr xs"
| "py_iter (PSet xs) = Inr xs"
| "py_iter (PDict kvs) = Inr (map fst kvs)"
| "py_iter (PStr s) = Inr (map (\<lambda>c. PStr [c]) s)"
| "py_iter (PBytes b) = Inr (map (\<lambda>c. PInt (of_char c)) b)"
| "py_iter PNone = Inl TypeError"
| "py_iter (PInt _) = Inl TypeError"

fun hashable :: "pyobj \<Rightarrow> bool" where
  "hashable (PList _) = False"
| "hashable (PDict _) = False"
| "hashable (PSet _) = False"
| "hashable _ = True"

text \<open>\<^verbatim>\<open>set(obj)\<close>: iterate, and refuse an unhashable element.\<close>

definition py_set :: "pyobj \<Rightarrow> error + pyobj set" where
  "py_set obj =
     (case py_iter obj of
        Inl e \<Rightarrow> Inl e
      | Inr xs \<Rightarrow> if list_all hashable xs then Inr (set xs) else Inl TypeError)"

subsection \<open>Text helpers of the standard library\<close>

definition startswith :: "string \<Rightarrow> string \<Rightarrow> bool" where
  "startswith s p = (take (length p) s = p)"

definition is_ascii :: "string \<Rightarrow> bool" where
  "is_ascii s = list_all (\<lambda>c. (of_char c :: nat) < 128) s"

text \<open>\<^verbatim>\<open>s.encode("ascii")\<close> and \<^verbatim>\<open>str(b, "ascii")\<close>.\<close>

definition encode_ascii :: "str \<Rightarrow> error + bytes" where
  "encode_ascii s = (if is_ascii s then Inr s else Inl UnicodeEncodeError)"

definition decode_ascii :: "bytes \<Rightarrow> error + str" where
  "decode_ascii b = (if is_ascii b then Inr b else Inl UnicodeDecodeError)"

text \<open>\<^verbatim>\<open>bytes.strip()\<close>: drop ASCII whitespace at both ends.\<close>

definition is_space :: "char \<Rightarrow> bool" where
  "is_space c = (c \<in> set [CHR '' '', CHR 0x09, CHR 0x0A, CHR 0x0B, CHR 0x0C, CHR 0x0D])"

definition strip :: "bytes \<Rightarrow> bytes" where
  "strip b = rev (dropWhile is_space (rev (dropWhile is_space b)))"

text \<open>\<^verbatim>\<open>name.lower()\<close> on ASCII letters, as Twisted normalises header names.\<close>

definition lower_char :: "char \<Rightarrow> char" where
  "lower_char c =
     (let n = (of_char c :: nat) in if 65 \<le> n \<and> n \<le> 90 then char_of (n + 32) else c)"

definition lower :: "string \<Rightarrow> string" where
  "lower s = map lower_char s"

text \<open>\<^verbatim>\<open>"{}".format(n)\<close> for an integer: its decimal numeral.\<close>

definition digit_char :: "nat \<Rightarrow> char" where
  "digit_char d = ''0123456789'' ! d"

function str_nat :: "nat \<Rightarrow> string" where
  "str_nat n = (if n < 10 then [digit_char n] else str_nat (n div 10) @ [digit_char (n mod 10)])"
  by pat_completeness auto
termination
  by (relation "measure id") auto

definition str_int :: "int \<Rightarrow> string" where
  "str_int i = (if i < 0 then CHR ''-'' # str_nat (nat (- i)) else str_nat (nat i))"

subsection \<open>base64.b64encode\<close>

definition b64_alphabet :: "string" where
  "b64_alphabet = ''ABCDEFGHIJKLMNOPQRSTUVWXYZabcdefghijklmnopqrstuvwxyz0123456789+/''"

definition b64_digit :: "nat \<Rightarrow> char" where
  "b64_digit n = b64_alphabet ! n"

fun b64encode :: "bytes \<Rightarrow> bytes" where
  "b64encode [] = []"
| "b64encode [a] =
     (let x = (of_char a :: nat) in
      [b64_digit (x div 4), b64_digit ((x mod 4) * 16), CHR ''='', CHR ''=''])"
| "b64encode [a, b] =
     (let x = (of_char a :: nat); y = (of_char b :: nat) in
      [b64_digit (x div 4), b64_digit ((x mod 4) * 16 + y div 16),
       b64_digit ((y mod 16) * 4), CHR ''=''])"
| "b64encode (a # b # c # rest) =
     (let x = (of_char a :: nat); y = (of_char b :: nat); z = (of_char c :: nat) in
      [b64_digit (x div 4), b64_digit ((x mod 4) * 16 + y div 16),
       b64_digit ((y mod 16) * 4 + z div 64), b64_digit (z mod 64)] @ b64encode rest)"

subsection \<open>URLs, headers, requests and responses\<close>

text \<open>
  The fields of a \<^verbatim>\<open>hyperlink.DecodedURL\<close> the client reads. \<^verbatim>\<open>path\<close> is the tuple of path
  segments.
\<close>

record DecodedURL =
  scheme :: str
  user :: str
  host :: str
  port :: "nat option"
  path :: "str list"
  fragment :: str

text \<open>
  \<^verbatim>\<open>twisted.web.http_headers.Headers\<close>: every header name, lower-cased, has the list of its
  raw values; a name that was never set has none.
\<close>

type_synonym Headers = "string \<rightharpoonup> bytes list"

definition Headers_init :: "(string \<times> bytes list) list \<Rightarrow> Headers" where
  "Headers_init raw = fold (\<lambda>(name, vals) h. h(lower name \<mapsto> vals)) raw Map.empty"

definition getRawHeaders :: "Headers \<Rightarrow> string \<Rightarrow> bytes list option" where
  "getRawHeaders h name = h (lower name)"

definition addRawHeader :: "Headers \<Rightarrow> string \<Rightarrow> bytes \<Rightarrow> Headers" where
  "addRawHeader h name v =
     h(lower name \<mapsto> (case h (lower name) of None \<Rightarrow> [v] | Some vs \<Rightarrow> vs @ [v]))"

text \<open>What \<^verbatim>\<open>treq.request(method, url, headers=..., data=...)\<close> is given and what it answers.\<close>

record request =
  req_method :: str
  req_url :: DecodedURL
  req_headers :: Headers
  req_data :: "bytes option"

record response =
  code :: int
  phrase :: bytes
  content :: bytes

text \<open>
  Modelled from the spec: \<^verbatim>\<open>RangeMap\<close> of the package \<^verbatim>\<open>collections_extended\<close> is not among
  the sources. It is the spec's "collection of half-open integer intervals", each with a
  value. A \<^verbatim>\<open>RangeMap\<close> is kept here as the list of the ranges that were stored in it, each
  with its two bounds and its value, in the order in which \<^verbatim>\<open>set\<close> stored them.
\<close>

type_synonym RangeMap = "(pyobj \<times> pyobj \<times> bool) list"

text \<open>
  The imported functions that are not part of the sources: \<^verbatim>\<open>cbor2.loads\<close> and
  \<^verbatim>\<open>cbor2.dumps\<close>, \<^verbatim>\<open>si_b2a\<close> of \<^verbatim>\<open>allmydata.storage.common\<close>,
  \<^verbatim>\<open>swissnum_auth_header\<close> of \<^verbatim>\<open>allmydata.storage.http_common\<close>, the serialisation and
  reference resolution of hyperlink URLs, and the header text of werkzeug's \<^verbatim>\<open>Range\<close> and
  \<^verbatim>\<open>ContentRange\<close> (\<^verbatim>\<open>Range("bytes", [(a, b)]).to_header()\<close> and
  \<^verbatim>\<open>ContentRange("bytes", a, b).to_header()\<close>, either of which may refuse its bounds).
  \<^verbatim>\<open>RangeMap_refuses\<close> is the exception, if any, with which \<^verbatim>\<open>RangeMap.set\<close> refuses
  bounds that are not byte offsets, given the ranges stored so far. They are parameters of
  the model.
\<close>

record library =
  loads :: "bytes \<Rightarrow> error + pyobj"
  dumps :: "pyobj \<Rightarrow> bytes"
  si_b2a :: "bytes \<Rightarrow> bytes"
  swissnum_auth_header :: "bytes \<Rightarrow> bytes"
  to_text :: "DecodedURL \<Rightarrow> str"
  click :: "DecodedURL \<Rightarrow> str \<Rightarrow> DecodedURL"
  Range_to_header :: "int \<Rightarrow> int \<Rightarrow> error + str"
  ContentRange_to_header :: "int \<Rightarrow> int \<Rightarrow> error + str"
  RangeMap_refuses :: "RangeMap \<Rightarrow> pyobj \<Rightarrow> pyobj \<Rightarrow> error option"

text \<open>
  Modelled from the spec: the enumeration \<^verbatim>\<open>Secrets\<close> of
  \<^verbatim>\<open>allmydata/storage/http_common.py\<close> is not among the sources. Each secret header is
  "tagged with which secret role it fulfills (renewal / cancellation / upload)"; the tags
  are the values of the enumeration.
\<close>

datatype Secrets = LEASE_RENEW | LEASE_CANCEL | UPLOAD

fun Secrets_value :: "Secrets \<Rightarrow> str" where
  "Secrets_value LEASE_RENEW = ''lease-renew-secret''"
| "Secrets_value LEASE_CANCEL = ''lease-cancel-secret''"
| "Secrets_value UPLOAD = ''upload-secret''"

subsection \<open>StorageClient\<close>

definition encode_si :: "library \<Rightarrow> bytes \<Rightarrow> error + str" where
  "encode_si lib si = decode_ascii (si_b2a lib si)"

definition decode_cbor :: "library \<Rightarrow> response \<Rightarrow> error + pyobj" where
  "decode_cbor lib resp =
     (if code resp > 199 \<and> code resp < 300 then loads lib (content resp)
      else Inl (ClientException (code resp) (Some (phrase resp))))"

record ImmutableCreateResult =
  already_have :: pyobj
  allocated :: pyobj

text \<open>
  The attributes of a \<^verbatim>\<open>StorageClient\<close>. \<^verbatim>\<open>treq\<close> is the transport: given a request and the
  state of the world (network and server) it fails or answers, and leaves a new state.
\<close>

record 'w StorageClient =
  base_url :: DecodedURL
  swissnum :: bytes
  treq :: "request \<Rightarrow> 'w \<Rightarrow> (error + response) \<times> 'w"

definition StorageClient_init ::
  "library \<Rightarrow> DecodedURL \<Rightarrow> bytes \<Rightarrow> (request \<Rightarrow> 'w \<Rightarrow> (error + response) \<times> 'w)
     \<Rightarrow> error + 'w StorageClient" where
  "StorageClient_init lib u sn t =
     (if startswith (to_text lib u) ''https://''
      then Inr \<lparr>base_url = u, swissnum = sn, treq = t\<rparr>
      else Inl AssertionError)"

text \<open>
  \<^verbatim>\<open>from_furl\<close> ends after its two assignments, so what it returns is \<^verbatim>\<open>None\<close>: the result
  type is an optional client.
\<close>

definition from_furl :: "DecodedURL \<Rightarrow> error + 'w StorageClient option" where
  "from_furl furl =
     (if fragment furl \<noteq> ''v=1'' then Inl AssertionError
      else if scheme furl \<noteq> ''pb'' then Inl AssertionError
      else (case path furl of
              [] \<Rightarrow> Inl IndexError
            | seg # _ \<Rightarrow>
               (case encode_ascii seg of
                  Inl e \<Rightarrow> Inl e
                | Inr swissnum' \<Rightarrow>
                   (case encode_ascii (user furl) of
                      Inl e \<Rightarrow> Inl e
                    | Inr certificate_hash \<Rightarrow> Inr None))))"

definition StorageClient_url :: "library \<Rightarrow> 'w StorageClient \<Rightarrow> str \<Rightarrow> DecodedURL" where
  "StorageClient_url lib c p = click lib (base_url c) p"

definition StorageClient_get_headers ::
  "library \<Rightarrow> 'w StorageClient \<Rightarrow> Headers option \<Rightarrow> Headers" where
  "StorageClient_get_headers lib c hs =
     addRawHeader (case hs of None \<Rightarrow> Headers_init [] | Some h \<Rightarrow> h)
       ''Authorization'' (swissnum_auth_header lib (swissnum c))"

text \<open>The loop of \<^verbatim>\<open>_request\<close> over the three (role, value) pairs.\<close>

fun add_secret_headers :: "(Secrets \<times> bytes option) list \<Rightarrow> Headers \<Rightarrow> error + Headers" where
  "add_secret_headers [] h = Inr h"
| "add_secret_headers ((secret, None) # rest) h = add_secret_headers rest h"
| "add_secret_headers ((secret, Some v) # rest) h =
     (case encode_ascii (Secrets_value secret) of
        Inl e \<Rightarrow> Inl e
      | Inr tag \<Rightarrow>
         add_secret_headers rest
           (addRawHeader h ''X-Tahoe-Authorization'' (tag @ '' '' @ strip (b64encode v))))"

definition StorageClient_request ::
  "library \<Rightarrow> 'w StorageClient \<Rightarrow> str \<Rightarrow> DecodedURL \<Rightarrow> bytes option \<Rightarrow> bytes option
     \<Rightarrow> bytes option \<Rightarrow> Headers option \<Rightarrow> bytes option \<Rightarrow> 'w \<Rightarrow> (error + response) \<times> 'w" where
  "StorageClient_request lib c m u lease_renew_secret lease_cancel_secret upload_secret hs d w =
     (case add_secret_headers
             [(LEASE_RENEW, lease_renew_secret),
              (LEASE_CANCEL, lease_cancel_secret),
              (UPLOAD, upload_secret)]
             (StorageClient_get_headers lib c hs) of
        Inl e \<Rightarrow> (Inl e, w)
      | Inr h \<Rightarrow> treq c \<lparr>req_method = m, req_url = u, req_headers = h, req_data = d\<rparr> w)"

definition get_version :: "library \<Rightarrow> 'w StorageClient \<Rightarrow> 'w \<Rightarrow> (error + pyobj) \<times> 'w" where
  "get_version lib c w =
     (case StorageClient_request lib c ''GET'' (StorageClient_url lib c ''/v1/version'')
             None None None None None w of
        (Inl e, w') \<Rightarrow> (Inl e, w')
      | (Inr resp, w') \<Rightarrow> (decode_cbor lib resp, w'))"

subsection \<open>UploadProgress and its RangeMap\<close>

text \<open>
  A byte offset is an integer; as a bound of a range, \<^verbatim>\<open>None\<close> leaves that side open.
\<close>

fun is_offset :: "pyobj \<Rightarrow> bool" where
  "is_offset PNone = True"
| "is_offset (PInt i) = True"
| "is_offset _ = False"

definition offsets_only :: "RangeMap \<Rightarrow> bool" where
  "offsets_only m = list_all (\<lambda>(start, stop, v). is_offset start \<and> is_offset stop) m"

definition RangeMap_new :: RangeMap where
  "RangeMap_new = []"

text \<open>
  \<^verbatim>\<open>set(value, start, stop)\<close> stores the value on \<open>[start, stop)\<close>. Between byte offsets, a
  range with \<open>stop \<le> start\<close> is refused with \<^verbatim>\<open>ValueError\<close> and every other range is
  stored. As soon as a bound that is not a byte offset is involved, in the call or in a
  range stored before, whether the call raises is the library's matter.
\<close>

fun check_start_stop :: "pyobj \<Rightarrow> pyobj \<Rightarrow> error option" where
  "check_start_stop (PInt a) (PInt b) = (if b \<le> a then Some ValueError else None)"
| "check_start_stop _ _ = None"

definition RangeMap_set :: "library \<Rightarrow> RangeMap \<Rightarrow> bool \<Rightarrow> pyobj \<Rightarrow> pyobj \<Rightarrow> error + RangeMap" where
  "RangeMap_set lib m v start stop =
     (case (if is_offset start \<and> is_offset stop \<and> offsets_only m
            then check_start_stop start stop
            else RangeMap_refuses lib m start stop) of
        Some e \<Rightarrow> Inl e
      | None \<Rightarrow> Inr (m @ [(start, stop, v)]))"

text \<open>
  Whether the byte offset \<open>x\<close> lies in \<open>[start, stop)\<close>, and \<^verbatim>\<open>m.get(x)\<close> for a map of
  ranges of byte offsets: the value of the range stored last among those that contain \<open>x\<close>.
\<close>

fun not_before :: "pyobj \<Rightarrow> int \<Rightarrow> bool" where
  "not_before PNone x = True"
| "not_before (PInt a) x = (a \<le> x)"
| "not_before _ x = False"

fun before :: "pyobj \<Rightarrow> int \<Rightarrow> bool" where
  "before PNone x = True"
| "before (PInt b) x = (x < b)"
| "before _ x = False"

definition in_range :: "pyobj \<Rightarrow> pyobj \<Rightarrow> int \<Rightarrow> bool" where
  "in_range start stop x = (not_before start x \<and> before stop x)"

fun RangeMap_get :: "RangeMap \<Rightarrow> int \<Rightarrow> bool option" where
  "RangeMap_get [] x = None"
| "RangeMap_get ((start, stop, v) # m) x =
     (case RangeMap_get m x of
        Some later \<Rightarrow> Some later
      | None \<Rightarrow> if in_range start stop x then Some v else None)"

record UploadProgress =
  finished :: bool
  required :: RangeMap

subsection \<open>StorageClientImmutables\<close>

definition create_result :: "library \<Rightarrow> response \<Rightarrow> error + ImmutableCreateResult" where
  "create_result lib resp =
     (case decode_cbor lib resp of
        Inl e \<Rightarrow> Inl e
      | Inr decoded_response \<Rightarrow>
         (case py_getitem decoded_response ''already-have'' of
            Inl e \<Rightarrow> Inl e
          | Inr a \<Rightarrow>
             (case py_getitem decoded_response ''allocated'' of
                Inl e \<Rightarrow> Inl e
              | Inr b \<Rightarrow> Inr \<lparr>already_have = a, allocated = b\<rparr>)))"

text \<open>\<^verbatim>\<open>share_numbers\<close> is the list of the elements of the set, in its iteration order.\<close>

definition create ::
  "library \<Rightarrow> 'w StorageClient \<Rightarrow> bytes \<Rightarrow> int list \<Rightarrow> int \<Rightarrow> bytes \<Rightarrow> bytes \<Rightarrow> bytes
     \<Rightarrow> 'w \<Rightarrow> (error + ImmutableCreateResult) \<times> 'w" where
  "create lib c storage_index share_numbers allocated_size
          upload_secret lease_renew_secret lease_cancel_secret w =
     (case encode_si lib storage_index of
        Inl e \<Rightarrow> (Inl e, w)
      | Inr si \<Rightarrow>
         (let u = StorageClient_url lib c (''/v1/immutable/'' @ si);
              message = dumps lib
                (PDict [(PStr ''share-numbers'', PSet (map PInt share_numbers)),
                        (PStr ''allocated-size'', PInt allocated_size)])
          in case StorageClient_request lib c ''POST'' u
                    (Some lease_renew_secret) (Some lease_cancel_secret) (Some upload_secret)
                    (Some (Headers_init [(''content-type'', [''application/cbor''])]))
                    (Some message) w of
               (Inl e, w') \<Rightarrow> (Inl e, w')
             | (Inr resp, w') \<Rightarrow> (create_result lib resp, w')))"

text \<open>The loop \<^verbatim>\<open>for chunk in body["required"]: remaining.set(True, chunk["begin"], chunk["end"])\<close>.\<close>

fun set_required :: "library \<Rightarrow> pyobj list \<Rightarrow> RangeMap \<Rightarrow> error + RangeMap" where
  "set_required lib [] remaining = Inr remaining"
| "set_required lib (chunk # chunks) remaining =
     (case py_getitem chunk ''begin'' of
        Inl e \<Rightarrow> Inl e
      | Inr b \<Rightarrow>
         (case py_getitem chunk ''end'' of
            Inl e \<Rightarrow> Inl e
          | Inr en \<Rightarrow>
             (case RangeMap_set lib remaining True b en of
                Inl e \<Rightarrow> Inl e
              | Inr remaining' \<Rightarrow> set_required lib chunks remaining')))"

text \<open>What \<^verbatim>\<open>write_share_chunk\<close> does with the response, once there is one.\<close>

definition write_share_chunk_result :: "library \<Rightarrow> response \<Rightarrow> error + UploadProgress" where
  "write_share_chunk_result lib resp =
     (case (if code resp = 200 then Inr False
            else if code resp = 201 then Inr True
            else Inl (ClientException (code resp) None)) of
        Inl e \<Rightarrow> Inl e
      | Inr finished' \<Rightarrow>
         (case decode_cbor lib resp of
            Inl e \<Rightarrow> Inl e
          | Inr body \<Rightarrow>
             (case py_getitem body ''required'' of
                Inl e \<Rightarrow> Inl e
              | Inr req \<Rightarrow>
                 (case py_iter req of
                    Inl e \<Rightarrow> Inl e
                  | Inr chunks \<Rightarrow>
                     (case set_required lib chunks RangeMap_new of
                        Inl e \<Rightarrow> Inl e
                      | Inr remaining \<Rightarrow>
                         Inr \<lparr>finished = finished', required = remaining\<rparr>)))))"

definition share_url :: "library \<Rightarrow> 'w StorageClient \<Rightarrow> str \<Rightarrow> int \<Rightarrow> DecodedURL" where
  "share_url lib c si share_number =
     StorageClient_url lib c (''/v1/immutable/'' @ si @ ''/'' @ str_int share_number)"

definition write_share_chunk ::
  "library \<Rightarrow> 'w StorageClient \<Rightarrow> bytes \<Rightarrow> int \<Rightarrow> bytes \<Rightarrow> int \<Rightarrow> bytes
     \<Rightarrow> 'w \<Rightarrow> (error + UploadProgress) \<times> 'w" where
  "write_share_chunk lib c storage_index share_number upload_secret offset chunk_data w =
     (case encode_si lib storage_index of
        Inl e \<Rightarrow> (Inl e, w)
      | Inr si \<Rightarrow>
         (case ContentRange_to_header lib offset (offset + int (length chunk_data)) of
            Inl e \<Rightarrow> (Inl e, w)
          | Inr content_range \<Rightarrow>
             (case StorageClient_request lib c ''PATCH'' (share_url lib c si share_number)
                     None None (Some upload_secret)
                     (Some (Headers_init [(''content-range'', [content_range])]))
                     (Some chunk_data) w of
                (Inl e, w') \<Rightarrow> (Inl e, w')
              | (Inr resp, w') \<Rightarrow> (write_share_chunk_result lib resp, w'))))"

definition read_share_chunk_result :: "response \<Rightarrow> error + bytes" where
  "read_share_chunk_result resp =
     (if code resp = 206 then Inr (content resp)
      else Inl (ClientException (code resp) None))"

definition read_share_chunk ::
  "library \<Rightarrow> 'w StorageClient \<Rightarrow> bytes \<Rightarrow> int \<Rightarrow> int \<Rightarrow> int \<Rightarrow> 'w \<Rightarrow> (error + bytes) \<times> 'w" where
  "read_share_chunk lib c storage_index share_number offset len w =
     (case encode_si lib storage_index of
        Inl e \<Rightarrow> (Inl e, w)
      | Inr si \<Rightarrow>
         (case Range_to_header lib offset (offset + len) of
            Inl e \<Rightarrow> (Inl e, w)
          | Inr range_header \<Rightarrow>
             (case StorageClient_request lib c ''GET'' (share_url lib c si share_number)
                     None None None
                     (Some (Headers_init [(''range'', [range_header])]))
                     None w of
                (Inl e, w') \<Rightarrow> (Inl e, w')
              | (Inr resp, w') \<Rightarrow> (read_share_chunk_result resp, w'))))"

definition list_shares_result :: "library \<Rightarrow> response \<Rightarrow> error + pyobj set" where
  "list_shares_result lib resp =
     (if code resp = 200
      then (case decode_cbor lib resp of Inl e \<Rightarrow> Inl e | Inr body \<Rightarrow> py_set body)
      else Inl (ClientException (code resp) None))"

definition list_shares ::
  "library \<Rightarrow> 'w StorageClient \<Rightarrow> bytes \<Rightarrow> 'w \<Rightarrow> (error + pyobj set) \<times> 'w" where
  "list_shares lib c storage_index w =
     (case encode_si lib storage_index of
        Inl e \<Rightarrow> (Inl e, w)
      | Inr si \<Rightarrow>
         (case StorageClient_request lib c ''GET''
                 (StorageClient_url lib c (''/v1/immutable/'' @ si @ ''/shares''))
                 None None None None None w of
            (Inl e, w') \<Rightarrow> (Inl e, w')
          | (Inr resp, w') \<Rightarrow> (list_shares_result lib resp, w')))"

subsection \<open>Peer permutation\<close>

text \<open>
  Modelled from the spec: \<^verbatim>\<open>get_permuted_peers\<close>, which \<^verbatim>\<open>test_permute\<close> calls, is not
  among the sources. The spec's PeerSelector derives "for each candidate, a fixed-width
  score by combining (via a cryptographic or at least well-distributed hash) the
  StorageIndex and the candidate's identity", sorts "candidates ascending by score", and
  breaks ties "by comparing raw identity bytes". The hash is a parameter; the candidates
  arrive as the list of the keys of the connection table, in its insertion order.
\<close>

definition get_permuted_peers ::
  "('k \<Rightarrow> 'p \<Rightarrow> 's::linorder) \<Rightarrow> 'k \<Rightarrow> ('p::linorder) list \<Rightarrow> ('s \<times> 'p) list" where
  "get_permuted_peers h key peers = sort (map (\<lambda>peerid. (h key peerid, peerid)) peers)"

definition permute :: "('k \<Rightarrow> 'p \<Rightarrow> 's::linorder) \<Rightarrow> 'k \<Rightarrow> ('p::linorder) list \<Rightarrow> 'p list" where
  "permute h key peers = map snd (get_permuted_peers h key peers)"

subsection \<open>Notions the properties are stated with\<close>

text \<open>\<^verbatim>\<open>headers.getRawHeaders(name, [])\<close>: the values of a header, none when it is absent.\<close>

definition header_values :: "Headers \<Rightarrow> string \<Rightarrow> bytes list" where
  "header_values h name = (case getRawHeaders h name of None \<Rightarrow> [] | Some vs \<Rightarrow> vs)"

text \<open>
  The secret headers one role is to contribute: none for a secret that is not supplied,
  otherwise the single value made of the role tag, a space and the base64 text of the secret.
\<close>

definition secret_header :: "Secrets \<Rightarrow> bytes option \<Rightarrow> bytes list" where
  "secret_header role v =
     (case v of None \<Rightarrow> [] | Some s \<Rightarrow> [Secrets_value role @ '' '' @ b64encode s])"

text \<open>
  A stored range is the one an entry of the \<^verbatim>\<open>required\<close> list names when its bounds are the
  entry's \<^verbatim>\<open>begin\<close> and \<^verbatim>\<open>end\<close> and its value is \<^verbatim>\<open>True\<close>.
\<close>

definition listed_as :: "pyobj \<Rightarrow> pyobj \<times> pyobj \<times> bool \<Rightarrow> bool" where
  "listed_as chunk r =
     (case r of (start, stop, v) \<Rightarrow>
        py_getitem chunk ''begin'' = Inr start \<and> py_getitem chunk ''end'' = Inr stop \<and> v)"

text \<open>
  Whether offset \<open>x\<close> lies in the half-open range \<open>[begin, end)\<close> that an entry of the
  \<^verbatim>\<open>required\<close> list of a response names.
\<close>

definition listed_range_contains :: "pyobj \<Rightarrow> int \<Rightarrow> bool" where
  "listed_range_contains chunk x =
     (case (py_getitem chunk ''begin'', py_getitem chunk ''end'') of
        (Inr b, Inr e) \<Rightarrow> in_range b e x
      | _ \<Rightarrow> False)"

subsection \<open>Test doubles\<close>

text \<open>
  The stand-in for \<^verbatim>\<open>RangeMap.set\<close> on bounds that are not byte offsets orders integers,
  text, bytes, lists and sets as Python orders them, refuses with \<^verbatim>\<open>ValueError\<close> a range with
  \<open>stop \<le> start\<close>, and with \<^verbatim>\<open>TypeError\<close> bounds that Python does not order or that are of
  another kind than the bounds stored before.
\<close>

fun str_less :: "string \<Rightarrow> string \<Rightarrow> bool" where
  "str_less [] [] = False"
| "str_less [] (y # ys) = True"
| "str_less (x # xs) [] = False"
| "str_less (x # xs) (y # ys) =
     ((of_char x :: nat) < of_char y \<or> (x = y \<and> str_less xs ys))"

fun py_less :: "pyobj \<Rightarrow> pyobj \<Rightarrow> bool option"
  and py_less_list :: "pyobj list \<Rightarrow> pyobj list \<Rightarrow> bool option" where
  "py_less (PInt a) (PInt b) = Some (a < b)"
| "py_less (PStr a) (PStr b) = Some (str_less a b)"
| "py_less (PBytes a) (PBytes b) = Some (str_less a b)"
| "py_less (PList a) (PList b) = py_less_list a b"
| "py_less (PSet a) (PSet b) = Some (set a \<subset> set b)"
| "py_less a b = None"
| "py_less_list [] [] = Some False"
| "py_less_list [] (y # ys) = Some True"
| "py_less_list (x # xs) [] = Some False"
| "py_less_list (x # xs) (y # ys) = (if x = y then py_less_list xs ys else py_less x y)"

fun py_equal :: "pyobj \<Rightarrow> pyobj \<Rightarrow> bool" where
  "py_equal (PSet a) (PSet b) = (set a = set b)"
| "py_equal a b = (a = b)"

definition py_less_eq :: "pyobj \<Rightarrow> pyobj \<Rightarrow> bool option" where
  "py_less_eq a b = map_option (\<lambda>less. less \<or> py_equal a b) (py_less a b)"

fun same_kind :: "pyobj \<Rightarrow> pyobj \<Rightarrow> bool" where
  "same_kind PNone b = True"
| "same_kind a PNone = True"
| "same_kind (PInt a) (PInt b) = True"
| "same_kind (PStr a) (PStr b) = True"
| "same_kind (PBytes a) (PBytes b) = True"
| "same_kind (PList a) (PList b) = True"
| "same_kind (PSet a) (PSet b) = True"
| "same_kind a b = False"

fun stub_check :: "pyobj \<Rightarrow> pyobj \<Rightarrow> error option" where
  "stub_check PNone stop = None"
| "stub_check start PNone = None"
| "stub_check start stop =
     (case py_less_eq stop start of
        None \<Rightarrow> Some TypeError
      | Some True \<Rightarrow> Some ValueError
      | Some False \<Rightarrow> None)"

definition stub_RangeMap_refuses :: "RangeMap \<Rightarrow> pyobj \<Rightarrow> pyobj \<Rightarrow> error option" where
  "stub_RangeMap_refuses m start stop =
     (if list_all (\<lambda>(a, b, v). same_kind a start \<and> same_kind a stop \<and>
                               same_kind b start \<and> same_kind b stop) m
      then stub_check start stop
      else Some TypeError)"

text \<open>
  Stand-ins for the imported functions, with the decoder left open, and a transport in the
  manner of \<^verbatim>\<open>StubTreq\<close>: it answers the \<open>n\<close>-th request with the \<open>n\<close>-th canned response and
  keeps the requests it was given.
\<close>

definition stub_library :: "(bytes \<Rightarrow> error + pyobj) \<Rightarrow> library" where
  "stub_library decoder =
     \<lparr>loads = decoder,
      dumps = (\<lambda>obj. ''cbor''),
      si_b2a = (\<lambda>si. si),
      swissnum_auth_header = (\<lambda>sn. ''Tahoe-LAFS '' @ sn),
      to_text = (\<lambda>u. scheme u @ ''://'' @ host u),
      click = (\<lambda>u p. u\<lparr>path := [p]\<rparr>),
      Range_to_header = (\<lambda>a b. Inr ''bytes''),
      ContentRange_to_header = (\<lambda>a b. Inr ''bytes''),
      RangeMap_refuses = stub_RangeMap_refuses\<rparr>"

text \<open>A decoder that knows the decoding of the listed bodies and of no other.\<close>

definition stub_loads :: "(bytes \<times> pyobj) list \<Rightarrow> bytes \<Rightarrow> error + pyobj" where
  "stub_loads table b = (case map_of table b of None \<Rightarrow> Inl CBORDecodeError | Some v \<Rightarrow> Inr v)"

definition stub_treq ::
  "response list \<Rightarrow> request \<Rightarrow> request list \<Rightarrow> (error + response) \<times> request list" where
  "stub_treq canned rq seen =
     (if length seen < length canned then Inr (canned ! length seen) else Inl TransportError,
      seen @ [rq])"

definition stub_url :: DecodedURL where
  "stub_url = \<lparr>scheme = ''https'', user = [], host = ''storage.example'', port = None,
               path = [], fragment = []\<rparr>"

definition stub_client :: "response list \<Rightarrow> request list StorageClient" where
  "stub_client canned = \<lparr>base_url = stub_url, swissnum = ''swiss'', treq = stub_treq canned\<rparr>"

section \<open>Auxiliary facts\<close>

lemma lower_names:
  "lower ''Authorization'' = ''authorization''"
  "lower ''X-Tahoe-Authorization'' = ''x-tahoe-authorization''"
  "lower ''content-type'' = ''content-type''"
  "lower ''content-range'' = ''content-range''"
  "lower ''range'' = ''range''"
  by code_simp+

lemma of_char_less_256: "(of_char c :: nat) < 256"
proof -
  have "(of_char c :: nat) mod 256 = of_char c" by simp
  then show ?thesis by (metis mod_less_divisor zero_less_numeral)
qed

lemma b64_alphabet_no_space: "\<forall>ch \<in> set b64_alphabet. \<not> is_space ch"
  by (simp add: b64_alphabet_def is_space_def)

lemma b64_digit_no_space: "n < 64 \<Longrightarrow> \<not> is_space (b64_digit n)"
proof -
  assume "n < 64"
  then have "b64_alphabet ! n \<in> set b64_alphabet"
    by (intro nth_mem) (simp add: b64_alphabet_def)
  then show ?thesis using b64_alphabet_no_space by (simp add: b64_digit_def)
qed

lemma pad_no_space: "\<not> is_space CHR ''=''"
  by (simp add: is_space_def)

lemma b64_index_bounds:
  fixes x y z :: nat
  assumes "x < 256" "y < 256" "z < 256"
  shows "x div 4 < 64" "(x mod 4) * 16 < 64" "(x mod 4) * 16 + y div 16 < 64"
    "(y mod 16) * 4 < 64" "(y mod 16) * 4 + z div 64 < 64" "z mod 64 < 64"
  using assms by simp_all

lemma b64encode_no_space: "\<forall>ch \<in> set (b64encode v). \<not> is_space ch"
proof (induction v rule: b64encode.induct)
  case 1
  then show ?case by simp
next
  case (2 a)
  note bnd = b64_index_bounds [OF of_char_less_256 [of a] of_char_less_256 [of a]
      of_char_less_256 [of a]]
  show ?case
    by (simp add: Let_def b64_digit_no_space pad_no_space bnd)
next
  case (3 a b)
  note bnd = b64_index_bounds [OF of_char_less_256 [of a] of_char_less_256 [of b]
      of_char_less_256 [of b]]
  show ?case
    by (simp add: Let_def b64_digit_no_space pad_no_space bnd)
next
  case (4 a b c rest)
  note bnd = b64_index_bounds [OF of_char_less_256 [of a] of_char_less_256 [of b]
      of_char_less_256 [of c]]
  from 4 show ?case
    by (simp add: Let_def b64_digit_no_space bnd)
qed

lemma dropWhile_none: "\<forall>x \<in> set xs. \<not> P x \<Longrightarrow> dropWhile P xs = xs"
  by (cases xs) simp_all

lemma strip_b64encode: "strip (b64encode v) = b64encode v"
  using b64encode_no_space [of v] by (simp add: strip_def dropWhile_none)

lemma encode_Secrets_value: "encode_ascii (Secrets_value s) = Inr (Secrets_value s)"
  by (cases s) (simp_all add: encode_ascii_def is_ascii_def)

lemma header_values_addRawHeader:
  "header_values (addRawHeader h n v) n' =
     (if lower n' = lower n then header_values h n @ [v] else header_values h n')"
  by (simp add: header_values_def getRawHeaders_def addRawHeader_def split: option.splits)

lemma getRawHeaders_addRawHeader_other:
  "lower n' \<noteq> lower n \<Longrightarrow> getRawHeaders (addRawHeader h n v) n' = getRawHeaders h n'"
  by (simp add: getRawHeaders_def addRawHeader_def)

lemma add_secret_headers_Inr:
  "\<exists>h'. add_secret_headers secrets h = Inr h' \<and>
     header_values h' ''X-Tahoe-Authorization'' =
       header_values h ''X-Tahoe-Authorization'' @ concat (map (\<lambda>(role, v). secret_header role v) secrets) \<and>
     (\<forall>name. lower name \<noteq> ''x-tahoe-authorization'' \<longrightarrow> getRawHeaders h' name = getRawHeaders h name)"
proof (induction secrets h rule: add_secret_headers.induct)
  case (1 h)
  then show ?case by simp
next
  case (2 secret rest h)
  then show ?case by (simp add: secret_header_def)
next
  case (3 secret v rest h)
  let ?h1 = "addRawHeader h ''X-Tahoe-Authorization'' (Secrets_value secret @ '' '' @ b64encode v)"
  from 3 [of "Secrets_value secret"] obtain h' where h':
    "add_secret_headers rest ?h1 = Inr h'"
    "header_values h' ''X-Tahoe-Authorization'' =
       header_values ?h1 ''X-Tahoe-Authorization'' @ concat (map (\<lambda>(role, v). secret_header role v) rest)"
    "\<forall>name. lower name \<noteq> ''x-tahoe-authorization'' \<longrightarrow> getRawHeaders h' name = getRawHeaders ?h1 name"
    by (auto simp: encode_Secrets_value strip_b64encode)
  show ?case
    using h'
    by (simp add: encode_Secrets_value strip_b64encode secret_header_def
        header_values_addRawHeader getRawHeaders_addRawHeader_other lower_names)
qed

lemma request_headers:
  fixes hs :: "Headers option"
  defines "h0 \<equiv> (case hs of None \<Rightarrow> Headers_init [] | Some given \<Rightarrow> given)"
  shows "\<exists>h. StorageClient_request lib c m u lease_renew_secret lease_cancel_secret upload_secret hs d w
             = treq c \<lparr>req_method = m, req_url = u, req_headers = h, req_data = d\<rparr> w
         \<and> header_values h ''Authorization''
             = header_values h0 ''Authorization'' @ [swissnum_auth_header lib (swissnum c)]
         \<and> header_values h ''X-Tahoe-Authorization''
             = header_values h0 ''X-Tahoe-Authorization''
               @ secret_header LEASE_RENEW lease_renew_secret
               @ secret_header LEASE_CANCEL lease_cancel_secret
               @ secret_header UPLOAD upload_secret
         \<and> (\<forall>name. lower name \<noteq> ''authorization'' \<and> lower name \<noteq> ''x-tahoe-authorization''
               \<longrightarrow> getRawHeaders h name = getRawHeaders h0 name)"
proof -
  let ?h1 = "StorageClient_get_headers lib c hs"
  let ?secrets = "[(LEASE_RENEW, lease_renew_secret), (LEASE_CANCEL, lease_cancel_secret),
                   (UPLOAD, upload_secret)]"
  have h1: "?h1 = addRawHeader h0 ''Authorization'' (swissnum_auth_header lib (swissnum c))"
    by (simp add: StorageClient_get_headers_def h0_def)
  obtain h where h:
    "add_secret_headers ?secrets ?h1 = Inr h"
    "header_values h ''X-Tahoe-Authorization'' =
       header_values ?h1 ''X-Tahoe-Authorization'' @ concat (map (\<lambda>(role, v). secret_header role v) ?secrets)"
    "\<forall>name. lower name \<noteq> ''x-tahoe-authorization'' \<longrightarrow> getRawHeaders h name = getRawHeaders ?h1 name"
    using add_secret_headers_Inr [of ?secrets ?h1] by blast
  have call: "StorageClient_request lib c m u lease_renew_secret lease_cancel_secret upload_secret hs d w
             = treq c \<lparr>req_method = m, req_url = u, req_headers = h, req_data = d\<rparr> w"
    using h(1) by (simp add: StorageClient_request_def)
  have auth: "header_values h ''Authorization''
             = header_values h0 ''Authorization'' @ [swissnum_auth_header lib (swissnum c)]"
  proof -
    have "getRawHeaders h ''Authorization'' = getRawHeaders ?h1 ''Authorization''"
      using h(3) by (simp add: lower_names)
    then have "header_values h ''Authorization'' = header_values ?h1 ''Authorization''"
      by (simp add: header_values_def)
    then show ?thesis by (simp add: h1 header_values_addRawHeader)
  qed
  have secret: "header_values h ''X-Tahoe-Authorization''
             = header_values h0 ''X-Tahoe-Authorization''
               @ secret_header LEASE_RENEW lease_renew_secret
               @ secret_header LEASE_CANCEL lease_cancel_secret
               @ secret_header UPLOAD upload_secret"
    using h(2) by (simp add: h1 header_values_addRawHeader lower_names)
  have other: "\<forall>name. lower name \<noteq> ''authorization'' \<and> lower name \<noteq> ''x-tahoe-authorization''
               \<longrightarrow> getRawHeaders h name = getRawHeaders h0 name"
    using h(3) by (simp add: h1 getRawHeaders_addRawHeader_other lower_names)
  from call auth secret other show ?thesis by blast
qed

section \<open>The claims\<close>

subsection \<open>C5: the authorization headers of every request\<close>

text \<open>
  C5. Every request issued through \<^verbatim>\<open>StorageClient._request\<close> is handed to the transport with
  headers that carry the bearer \<^verbatim>\<open>Authorization\<close> value derived from the swiss number,
  appended to whatever the caller's headers already had under that name; under
  \<^verbatim>\<open>X-Tahoe-Authorization\<close> they gain, in the order renewal, cancellation, upload, exactly
  one value per supplied secret (the role tag, a space, and the base64 text of the secret)
  and nothing for a secret that is \<^verbatim>\<open>None\<close>; every other header is as the caller gave it.
\<close>

theorem StorageClient_request_headers:
  "let h0 = (case hs of None \<Rightarrow> Headers_init [] | Some given \<Rightarrow> given) in
         \<exists>h. StorageClient_request lib c m u lease_renew_secret lease_cancel_secret upload_secret hs d w
             = treq c \<lparr>req_method = m, req_url = u, req_headers = h, req_data = d\<rparr> w
         \<and> header_values h ''Authorization''
             = header_values h0 ''Authorization'' @ [swissnum_auth_header lib (swissnum c)]
         \<and> header_values h ''X-Tahoe-Authorization''
             = header_values h0 ''X-Tahoe-Authorization''
               @ secret_header LEASE_RENEW lease_renew_secret
               @ secret_header LEASE_CANCEL lease_cancel_secret
               @ secret_header UPLOAD upload_secret
         \<and> (\<forall>name. lower name \<noteq> ''authorization'' \<and> lower name \<noteq> ''x-tahoe-authorization''
               \<longrightarrow> getRawHeaders h name = getRawHeaders h0 name)"
  unfolding Let_def by (rule request_headers)

text \<open>
  An instance: renewal secret \<^verbatim>\<open>abc\<close>, no cancellation secret, upload secret \<^verbatim>\<open>xyz\<close>, no
  headers given. The request the stub transport saw has the two secret headers.
\<close>

theorem StorageClient_request_headers_witness:
  "header_values
     (req_headers (last (snd (StorageClient_request (stub_library (\<lambda>b. Inl CBORDecodeError))
        (stub_client []) ''POST'' stub_url (Some ''abc'') None (Some ''xyz'') None None []))))
     ''X-Tahoe-Authorization''
   = [''lease-renew-secret YWJj'', ''upload-secret eHl6'']"
  using StorageClient_request_headers [of None "stub_library (\<lambda>b. Inl CBORDecodeError)"
      "stub_client []" "''POST''" stub_url "Some ''abc''" None "Some ''xyz''" None "[]"]
  by (auto simp add: Let_def stub_client_def stub_treq_def secret_header_def Headers_init_def
      header_values_def getRawHeaders_def lower_names b64_digit_def b64_alphabet_def)

subsection \<open>Evaluating calls on the test doubles\<close>

lemma stub_library_sel:
  "loads (stub_library dec) = dec"
  "dumps (stub_library dec) = (\<lambda>obj. ''cbor'')"
  "si_b2a (stub_library dec) = (\<lambda>si. si)"
  "swissnum_auth_header (stub_library dec) = (\<lambda>sn. ''Tahoe-LAFS '' @ sn)"
  "Range_to_header (stub_library dec) = (\<lambda>a b. Inr ''bytes'')"
  "ContentRange_to_header (stub_library dec) = (\<lambda>a b. Inr ''bytes'')"
  "RangeMap_refuses (stub_library dec) = stub_RangeMap_refuses"
  by (simp_all add: stub_library_def)

lemma encode_si_stub: "is_ascii si \<Longrightarrow> encode_si (stub_library dec) si = Inr si"
  by (simp add: encode_si_def decode_ascii_def stub_library_sel)

lemma stub_request_None:
  "StorageClient_request (stub_library dec) (stub_client canned) m u None None None hs d seen
     = (if length seen < length canned then Inr (canned ! length seen) else Inl TransportError,
        seen @ [\<lparr>req_method = m, req_url = u,
                  req_headers = StorageClient_get_headers (stub_library dec) (stub_client canned) hs,
                  req_data = d\<rparr>])"
  by (simp add: StorageClient_request_def stub_client_def stub_treq_def)

subsection \<open>C10: the constructor insists on an https URL\<close>

text \<open>
  C10. Constructing a \<^verbatim>\<open>StorageClient\<close> with a URL whose text does not start with
  \<^verbatim>\<open>https://\<close> fails the assertion; a client that was constructed holds the URL it was
  given, and the text of that URL starts with \<^verbatim>\<open>https://\<close>.
\<close>

theorem StorageClient_init_https:
  "(\<not> startswith (to_text lib u) ''https://'' \<longrightarrow> StorageClient_init lib u sn t = Inl AssertionError) \<and>
   (\<forall>c. StorageClient_init lib u sn t = Inr c \<longrightarrow>
        base_url c = u \<and> startswith (to_text lib (base_url c)) ''https://'')"
  by (auto simp add: StorageClient_init_def)

text \<open>
  An instance of each half: the stub URL with scheme \<^verbatim>\<open>http\<close> is refused, the stub URL
  itself is accepted.
\<close>

theorem StorageClient_init_https_witness:
  "\<not> startswith (to_text (stub_library (\<lambda>b. Inl CBORDecodeError)) (stub_url\<lparr>scheme := ''http''\<rparr>)) ''https://''
   \<and> StorageClient_init (stub_library (\<lambda>b. Inl CBORDecodeError)) (stub_url\<lparr>scheme := ''http''\<rparr>)
        ''swiss'' (stub_treq []) = Inl AssertionError
   \<and> StorageClient_init (stub_library (\<lambda>b. Inl CBORDecodeError)) stub_url ''swiss'' (stub_treq [])
        = Inr (stub_client [])
   \<and> startswith (to_text (stub_library (\<lambda>b. Inl CBORDecodeError)) (base_url (stub_client []))) ''https://''"
proof -
  let ?lib = "stub_library (\<lambda>b. Inl CBORDecodeError)"
  have a: "\<not> startswith (to_text ?lib (stub_url\<lparr>scheme := ''http''\<rparr>)) ''https://''"
    by (simp add: stub_library_def stub_url_def startswith_def)
  have b: "StorageClient_init ?lib (stub_url\<lparr>scheme := ''http''\<rparr>) ''swiss'' (stub_treq [])
        = Inl AssertionError"
    using StorageClient_init_https [of ?lib "stub_url\<lparr>scheme := ''http''\<rparr>" "''swiss''" "stub_treq []"] a
    by blast
  have c: "StorageClient_init ?lib stub_url ''swiss'' (stub_treq []) = Inr (stub_client [])"
    by (simp add: StorageClient_init_def stub_library_def stub_url_def stub_client_def startswith_def)
  have d: "startswith (to_text ?lib (base_url (stub_client []))) ''https://''"
    using StorageClient_init_https [of ?lib stub_url "''swiss''" "stub_treq []"] c
    by blast
  from a b c d show ?thesis by blast
qed

subsection \<open>C9: from_furl returns no client\<close>

text \<open>
  C9, as stated, fails: a furl with fragment \<^verbatim>\<open>v=1\<close> and scheme \<^verbatim>\<open>pb\<close> but an empty path
  passes both assertions, and then \<^verbatim>\<open>furl.path[0]\<close> raises \<^verbatim>\<open>IndexError\<close> instead of the
  method returning \<^verbatim>\<open>None\<close>.
\<close>

theorem from_furl_path_counterexample:
  "fragment \<lparr>scheme = ''pb'', user = ''tubid'', host = ''localhost'', port = Some 1234,
             path = [], fragment = ''v=1''\<rparr> = ''v=1''
   \<and> scheme \<lparr>scheme = ''pb'', user = ''tubid'', host = ''localhost'', port = Some 1234,
             path = [], fragment = ''v=1''\<rparr> = ''pb''
   \<and> (from_furl \<lparr>scheme = ''pb'', user = ''tubid'', host = ''localhost'', port = Some 1234,
             path = [], fragment = ''v=1''\<rparr> :: error + unit StorageClient option) = Inl IndexError"
  by (simp add: from_furl_def)

text \<open>
  C9, amended. \<^verbatim>\<open>from_furl\<close> returns \<^verbatim>\<open>None\<close> exactly for the furls with fragment \<^verbatim>\<open>v=1\<close>,
  scheme \<^verbatim>\<open>pb\<close>, a first path segment, and ASCII text in that segment and in the user
  part; on every other furl it raises. It never returns a \<^verbatim>\<open>StorageClient\<close>.
\<close>

theorem from_furl_returns_None:
  "(from_furl furl = Inr None \<longleftrightarrow>
      fragment furl = ''v=1'' \<and> scheme furl = ''pb'' \<and> path furl \<noteq> [] \<and>
      is_ascii (hd (path furl)) \<and> is_ascii (user furl))
   \<and> (\<forall>c. from_furl furl \<noteq> Inr (Some c))"
  by (auto simp add: from_furl_def encode_ascii_def split: list.splits)

text \<open>
  An instance: a furl with the swiss number as its first path segment.
\<close>

theorem from_furl_returns_None_witness:
  "(from_furl \<lparr>scheme = ''pb'', user = ''tubid'', host = ''localhost'', port = Some 1234,
             path = [''swissnum''], fragment = ''v=1''\<rparr> :: error + unit StorageClient option) = Inr None"
proof -
  let ?furl = "\<lparr>scheme = ''pb'', user = ''tubid'', host = ''localhost'',
      port = Some 1234, path = [''swissnum''], fragment = ''v=1''\<rparr>"
  have "fragment ?furl = ''v=1'' \<and> scheme ?furl = ''pb'' \<and> path ?furl \<noteq> [] \<and>
      is_ascii (hd (path ?furl)) \<and> is_ascii (user ?furl)"
    by (simp add: is_ascii_def)
  then show ?thesis
    using from_furl_returns_None [of ?furl] by blast
qed

subsection \<open>C1: read_share_chunk\<close>

text \<open>
  C1, as stated, fails: the server answers 206 with a three-byte body to a request for
  ten bytes, and \<^verbatim>\<open>read_share_chunk\<close> returns the three bytes.
\<close>

theorem read_share_chunk_short_body_counterexample:
  "fst (read_share_chunk (stub_library (\<lambda>b. Inl CBORDecodeError))
          (stub_client [\<lparr>code = 206, phrase = ''Partial Content'', content = ''abc''\<rparr>])
          ''si'' 0 10 10 []) = Inr ''abc''
   \<and> int (length ''abc'') \<noteq> 10"
  by (simp add: read_share_chunk_def read_share_chunk_result_def encode_si_stub
      is_ascii_def stub_request_None stub_library_sel)

text \<open>
  C1, amended. Once the request has been answered, \<^verbatim>\<open>read_share_chunk\<close> returns the body of
  the response as it is when the status is 206, whatever its length, and fails with
  \<^verbatim>\<open>ClientException(status)\<close> for every other status.
\<close>

theorem read_share_chunk_status:
  assumes "encode_si lib storage_index = Inr si"
    and "Range_to_header lib offset (offset + len) = Inr rh"
    and "StorageClient_request lib c ''GET'' (share_url lib c si share_number) None None None
           (Some (Headers_init [(''range'', [rh])])) None w = (Inr resp, w')"
  shows "read_share_chunk lib c storage_index share_number offset len w =
           (if code resp = 206 then Inr (content resp)
            else Inl (ClientException (code resp) None), w')"
  using assms by (simp add: read_share_chunk_def read_share_chunk_result_def)

text \<open>
  Two instances: a 206 response, whose body is returned, and a 200 response carrying the
  same body, which is an error.
\<close>

theorem read_share_chunk_status_witness:
  "fst (read_share_chunk (stub_library (\<lambda>b. Inl CBORDecodeError))
          (stub_client [\<lparr>code = 206, phrase = ''Partial Content'', content = ''0123456789''\<rparr>])
          ''si'' 0 10 10 []) = Inr ''0123456789''
   \<and> fst (read_share_chunk (stub_library (\<lambda>b. Inl CBORDecodeError))
          (stub_client [\<lparr>code = 200, phrase = ''OK'', content = ''0123456789''\<rparr>])
          ''si'' 0 10 10 []) = Inl (ClientException 200 None)"
proof -
  let ?lib = "stub_library (\<lambda>b. Inl CBORDecodeError)"
  let ?r1 = "\<lparr>code = 206, phrase = ''Partial Content'', content = ''0123456789''\<rparr>"
  let ?r2 = "\<lparr>code = 200, phrase = ''OK'', content = ''0123456789''\<rparr>"
  let ?call = "\<lambda>r. StorageClient_request ?lib (stub_client [r]) ''GET''
           (share_url ?lib (stub_client [r]) ''si'' 0) None None None
           (Some (Headers_init [(''range'', [''bytes''])])) None []"
  have si: "encode_si ?lib ''si'' = Inr ''si''"
    by (simp add: encode_si_stub is_ascii_def)
  have rh: "Range_to_header ?lib 10 (10 + 10) = Inr ''bytes''"
    by (simp add: stub_library_sel)
  have a1: "?call ?r1 = (Inr ?r1, snd (?call ?r1))"
    by (simp add: stub_request_None)
  have a2: "?call ?r2 = (Inr ?r2, snd (?call ?r2))"
    by (simp add: stub_request_None)
  show ?thesis
    using read_share_chunk_status [OF si rh a1] read_share_chunk_status [OF si rh a2]
    by simp
qed

subsection \<open>C7: list_shares and the status of the response\<close>

text \<open>
  C7, as stated, fails: status 203 lies in the success range and its body decodes, yet
  \<^verbatim>\<open>list_shares\<close> fails with \<^verbatim>\<open>ClientException(203)\<close>.
\<close>

theorem list_shares_non_200_counterexample:
  "fst (list_shares (stub_library (\<lambda>b. Inr (PList [PInt 0])))
          (stub_client [\<lparr>code = 203, phrase = ''Non-Authoritative Information'', content = ''x''\<rparr>])
          ''si'' []) = Inl (ClientException 203 None)
   \<and> decode_cbor (stub_library (\<lambda>b. Inr (PList [PInt 0])))
        \<lparr>code = 203, phrase = ''Non-Authoritative Information'', content = ''x''\<rparr>
        = Inr (PList [PInt 0])"
  by (simp add: list_shares_def list_shares_result_def encode_si_stub
      is_ascii_def stub_request_None decode_cbor_def stub_library_sel)

text \<open>
  C7, amended. Once the request has been answered, \<^verbatim>\<open>list_shares\<close> yields the set of the
  decoded body when the status is exactly 200 (and the error of decoding, or of building
  the set, when there is one); every other status, inside the success range or not, fails
  with \<^verbatim>\<open>ClientException(status)\<close>.
\<close>

theorem list_shares_status:
  assumes "encode_si lib storage_index = Inr si"
    and "StorageClient_request lib c ''GET''
           (StorageClient_url lib c (''/v1/immutable/'' @ si @ ''/shares''))
           None None None None None w = (Inr resp, w')"
  shows "list_shares lib c storage_index w =
           (if code resp = 200
            then (case loads lib (content resp) of Inl e \<Rightarrow> Inl e | Inr body \<Rightarrow> py_set body)
            else Inl (ClientException (code resp) None), w')"
  using assms by (simp add: list_shares_def list_shares_result_def decode_cbor_def)

text \<open>
  Two instances: status 200 with a body that decodes to \<^verbatim>\<open>[0, 2]\<close>, and status 404.
\<close>

theorem list_shares_status_witness:
  "fst (list_shares (stub_library (\<lambda>b. Inr (PList [PInt 0, PInt 2])))
          (stub_client [\<lparr>code = 200, phrase = ''OK'', content = ''x''\<rparr>])
          ''si'' []) = Inr {PInt 0, PInt 2}
   \<and> fst (list_shares (stub_library (\<lambda>b. Inr (PList [PInt 0, PInt 2])))
          (stub_client [\<lparr>code = 404, phrase = ''Not Found'', content = ''x''\<rparr>])
          ''si'' []) = Inl (ClientException 404 None)"
proof -
  let ?lib = "stub_library (\<lambda>b. Inr (PList [PInt 0, PInt 2]))"
  let ?r1 = "\<lparr>code = 200, phrase = ''OK'', content = ''x''\<rparr>"
  let ?r2 = "\<lparr>code = 404, phrase = ''Not Found'', content = ''x''\<rparr>"
  let ?call = "\<lambda>r. StorageClient_request ?lib (stub_client [r]) ''GET''
           (StorageClient_url ?lib (stub_client [r]) (''/v1/immutable/'' @ ''si'' @ ''/shares''))
           None None None None None []"
  have si: "encode_si ?lib ''si'' = Inr ''si''"
    by (simp add: encode_si_stub is_ascii_def)
  have a1: "?call ?r1 = (Inr ?r1, snd (?call ?r1))"
    by (simp add: stub_request_None)
  have a2: "?call ?r2 = (Inr ?r2, snd (?call ?r2))"
    by (simp add: stub_request_None)
  show ?thesis
    using list_shares_status [OF si a1] list_shares_status [OF si a2]
    by (simp add: stub_library_sel py_set_def)
qed

subsection \<open>C8: list_shares sends no secret\<close>

text \<open>
  C8. The request \<^verbatim>\<open>list_shares\<close> hands to the transport is a GET whose headers are the
  bearer \<^verbatim>\<open>Authorization\<close> value and nothing else: there is no \<^verbatim>\<open>X-Tahoe-Authorization\<close>
  header, and no body.
\<close>

theorem list_shares_request_headers:
  "let h = [''authorization'' \<mapsto> [swissnum_auth_header lib (swissnum c)]] in
     getRawHeaders h ''X-Tahoe-Authorization'' = None
     \<and> header_values h ''Authorization'' = [swissnum_auth_header lib (swissnum c)]
     \<and> list_shares lib c storage_index w =
         (case encode_si lib storage_index of
            Inl e \<Rightarrow> (Inl e, w)
          | Inr si \<Rightarrow>
             (case treq c \<lparr>req_method = ''GET'',
                           req_url = click lib (base_url c) (''/v1/immutable/'' @ si @ ''/shares''),
                           req_headers = h,
                           req_data = None\<rparr> w of
                (Inl e, w') \<Rightarrow> (Inl e, w')
              | (Inr resp, w') \<Rightarrow> (list_shares_result lib resp, w')))"
  by (simp add: Let_def list_shares_def StorageClient_request_def StorageClient_get_headers_def
      StorageClient_url_def Headers_init_def addRawHeader_def getRawHeaders_def header_values_def
      lower_names split: sum.splits)

text \<open>
  An instance: what the stub transport has seen after one \<^verbatim>\<open>list_shares\<close> call.
\<close>

theorem list_shares_request_headers_witness:
  "map (\<lambda>rq. (req_method rq, dom (req_headers rq),
               getRawHeaders (req_headers rq) ''X-Tahoe-Authorization'',
               getRawHeaders (req_headers rq) ''Authorization''))
     (snd (list_shares (stub_library (\<lambda>b. Inr (PList [])))
          (stub_client [\<lparr>code = 200, phrase = ''OK'', content = ''x''\<rparr>]) ''si'' []))
   = [(''GET'', {''authorization''}, None, Some [''Tahoe-LAFS swiss''])]"
  using list_shares_request_headers [of "stub_library (\<lambda>b. Inr (PList []))"
      "stub_client [\<lparr>code = 200, phrase = ''OK'', content = ''x''\<rparr>]" "''si''" "[]"]
  by (simp add: Let_def encode_si_stub is_ascii_def stub_library_sel getRawHeaders_def lower_names)
     (simp add: stub_client_def stub_treq_def)

subsection \<open>C2: write_share_chunk and the progress it reports\<close>

lemma RangeMap_set_Inr:
  "RangeMap_set lib m v start stop = Inr m' \<Longrightarrow> m' = m @ [(start, stop, v)]"
  by (auto simp add: RangeMap_set_def split: option.splits)

lemma RangeMap_set_offsets:
  "offsets_only m \<Longrightarrow> a < b \<Longrightarrow>
     RangeMap_set lib m v (PInt a) (PInt b) = Inr (m @ [(PInt a, PInt b, v)])"
  by (simp add: RangeMap_set_def)

lemma set_required_Inr:
  assumes "set_required lib chunks m = Inr m'"
  shows "\<exists>ranges. m' = m @ ranges \<and> list_all2 listed_as chunks ranges"
  using assms
proof (induction chunks arbitrary: m)
  case Nil
  then show ?case by simp
next
  case (Cons chunk chunks)
  from Cons.prems obtain b e m1 where
    b: "py_getitem chunk ''begin'' = Inr b" and
    e: "py_getitem chunk ''end'' = Inr e" and
    m1: "RangeMap_set lib m True b e = Inr m1" and
    rest: "set_required lib chunks m1 = Inr m'"
    by (auto split: sum.splits)
  from RangeMap_set_Inr [OF m1] have m1_eq: "m1 = m @ [(b, e, True)]" .
  from Cons.IH [OF rest] obtain ranges where
    "m' = m1 @ ranges" and "list_all2 listed_as chunks ranges"
    by blast
  then have "m' = m @ ((b, e, True) # ranges) \<and>
      list_all2 listed_as (chunk # chunks) ((b, e, True) # ranges)"
    by (simp add: m1_eq listed_as_def b e)
  then show ?case by blast
qed

lemma set_required_accepted:
  assumes "list_all2 listed_as chunks ranges"
    and "\<forall>n < length ranges.
           RangeMap_set lib (m @ take n ranges) True (fst (ranges ! n)) (fst (snd (ranges ! n)))
             = Inr (m @ take (Suc n) ranges)"
  shows "set_required lib chunks m = Inr (m @ ranges)"
  using assms
proof (induction chunks ranges arbitrary: m rule: list_all2_induct)
  case Nil
  then show ?case by simp
next
  case (Cons chunk chunks r ranges)
  obtain a b v where r: "r = (a, b, v)" by (cases r)
  from Cons.hyps(1) have fields:
    "py_getitem chunk ''begin'' = Inr a" "py_getitem chunk ''end'' = Inr b" "v"
    by (simp_all add: listed_as_def r)
  from Cons.prems [rule_format, of 0] have first:
    "RangeMap_set lib m True a b = Inr (m @ [r])"
    by (simp add: r)
  have "\<forall>n < length ranges.
           RangeMap_set lib ((m @ [r]) @ take n ranges) True (fst (ranges ! n))
             (fst (snd (ranges ! n))) = Inr ((m @ [r]) @ take (Suc n) ranges)"
  proof (intro allI impI)
    fix n assume "n < length ranges"
    then have "Suc n < length (r # ranges)" by simp
    from Cons.prems [rule_format, OF this] show
      "RangeMap_set lib ((m @ [r]) @ take n ranges) True (fst (ranges ! n))
             (fst (snd (ranges ! n))) = Inr ((m @ [r]) @ take (Suc n) ranges)"
      by simp
  qed
  from Cons.IH [OF this] have "set_required lib chunks (m @ [r]) = Inr (m @ r # ranges)"
    by simp
  then show ?case
    by (simp add: fields first)
qed

lemma set_required_offsets:
  assumes "offsets_only m"
    and "\<forall>chunk \<in> set chunks. \<exists>a b. py_getitem chunk ''begin'' = Inr (PInt a) \<and>
           py_getitem chunk ''end'' = Inr (PInt b) \<and> a < b"
  shows "\<exists>ranges. set_required lib chunks m = Inr (m @ ranges) \<and>
           list_all2 listed_as chunks ranges"
  using assms
proof (induction chunks arbitrary: m)
  case Nil
  then show ?case by simp
next
  case (Cons chunk chunks)
  from Cons.prems(2) obtain a b where
    a: "py_getitem chunk ''begin'' = Inr (PInt a)" and
    b: "py_getitem chunk ''end'' = Inr (PInt b)" and
    ab: "a < b"
    by auto
  let ?m1 = "m @ [(PInt a, PInt b, True)]"
  have stored: "RangeMap_set lib m True (PInt a) (PInt b) = Inr ?m1"
    using Cons.prems(1) ab by (rule RangeMap_set_offsets)
  have "offsets_only ?m1"
    using Cons.prems(1) by (simp add: offsets_only_def)
  moreover from Cons.prems(2) have "\<forall>chunk \<in> set chunks. \<exists>a b.
      py_getitem chunk ''begin'' = Inr (PInt a) \<and> py_getitem chunk ''end'' = Inr (PInt b) \<and> a < b"
    by simp
  ultimately obtain ranges where
    rest: "set_required lib chunks ?m1 = Inr (?m1 @ ranges)" and
    listed: "list_all2 listed_as chunks ranges"
    using Cons.IH [of ?m1] by blast
  have "set_required lib (chunk # chunks) m = Inr (m @ (PInt a, PInt b, True) # ranges) \<and>
      list_all2 listed_as (chunk # chunks) ((PInt a, PInt b, True) # ranges)"
    using rest listed by (simp add: a b stored listed_as_def)
  then show ?case by blast
qed

lemma RangeMap_get_listed:
  assumes "list_all2 listed_as chunks ranges"
  shows "RangeMap_get ranges x =
           (if \<exists>chunk \<in> set chunks. listed_range_contains chunk x then Some True else None)"
  using assms
proof (induction chunks ranges rule: list_all2_induct)
  case Nil
  then show ?case by simp
next
  case (Cons chunk chunks r ranges)
  obtain a b v where r: "r = (a, b, v)" by (cases r)
  from Cons.hyps(1) have here: "listed_range_contains chunk x = in_range a b x" and v: "v"
    by (simp_all add: listed_as_def listed_range_contains_def r)
  show ?case
    using Cons.IH by (auto simp add: r here v)
qed

lemma stub_request_fst:
  "fst (StorageClient_request (stub_library dec) (stub_client canned) m u r cn up hs d seen)
     = (if length seen < length canned then Inr (canned ! length seen) else Inl TransportError)"
proof -
  obtain h where
    "StorageClient_request (stub_library dec) (stub_client canned) m u r cn up hs d seen
      = treq (stub_client canned) \<lparr>req_method = m, req_url = u, req_headers = h, req_data = d\<rparr> seen"
    using request_headers [of "stub_library dec" "stub_client canned" m u r cn up hs d seen]
    by blast
  then show ?thesis by (simp add: stub_client_def stub_treq_def)
qed



lemma write_share_chunk_result_status:
  "code resp \<noteq> 200 \<Longrightarrow> code resp \<noteq> 201 \<Longrightarrow>
     write_share_chunk_result lib resp = Inl (ClientException (code resp) None)"
  by (simp add: write_share_chunk_result_def)

lemma write_share_chunk_result_decoded:
  assumes "code resp = 200 \<or> code resp = 201"
    and "loads lib (content resp) = Inr body"
    and "py_getitem body ''required'' = Inr req"
    and "py_iter req = Inr chunks"
  shows "write_share_chunk_result lib resp =
           (case set_required lib chunks RangeMap_new of
              Inl e \<Rightarrow> Inl e
            | Inr remaining \<Rightarrow> Inr \<lparr>finished = (code resp = 201), required = remaining\<rparr>)"
  using assms by (auto simp add: write_share_chunk_result_def decode_cbor_def split: sum.splits)

lemma write_share_chunk_result_Inr:
  assumes "write_share_chunk_result lib resp = Inr p"
  shows "(code resp = 200 \<or> code resp = 201) \<and> finished p = (code resp = 201) \<and>
         (\<exists>body req chunks.
            loads lib (content resp) = Inr body \<and>
            py_getitem body ''required'' = Inr req \<and>
            py_iter req = Inr chunks \<and>
            list_all2 listed_as chunks (required p))"
proof -
  from assms have ok: "code resp = 200 \<or> code resp = 201"
    by (auto simp add: write_share_chunk_result_def split: if_splits)
  with assms obtain body req chunks remaining where
    body: "loads lib (content resp) = Inr body" and
    req: "py_getitem body ''required'' = Inr req" and
    chunks: "py_iter req = Inr chunks" and
    remaining: "set_required lib chunks RangeMap_new = Inr remaining" and
    p_eq: "p = \<lparr>finished = (code resp = 201), required = remaining\<rparr>"
    by (auto simp add: write_share_chunk_result_def decode_cbor_def split: sum.splits if_splits)
  from set_required_Inr [OF remaining] have "list_all2 listed_as chunks remaining"
    by (simp add: RangeMap_new_def)
  with ok body req chunks show ?thesis
    by (auto simp add: p_eq)
qed

text \<open>
  C2. Once the request has been answered:
  \<^item> a status other than 200 and 201 makes \<^verbatim>\<open>write_share_chunk\<close> fail with
    \<^verbatim>\<open>ClientException(status)\<close>;
  \<^item> whenever an \<^verbatim>\<open>UploadProgress\<close> is returned, the status was 200 or 201, \<^verbatim>\<open>finished\<close> is
    false for 200 and true for 201, and the ranges stored in \<^verbatim>\<open>required\<close> are exactly the
    entries listed under \<^verbatim>\<open>required\<close> in the decoded body, one range from \<^verbatim>\<open>begin\<close> to
    \<^verbatim>\<open>end\<close> with value \<^verbatim>\<open>True\<close> for each entry, in their order;
  \<^item> a 200 or 201 answer whose body decodes to a map with an iterable \<^verbatim>\<open>required\<close> does
    return that \<^verbatim>\<open>UploadProgress\<close> whenever every entry has its two bounds and
    \<^verbatim>\<open>RangeMap.set\<close> accepts them one after the other; it does so in particular when the
    bounds of every entry are integers with \<^verbatim>\<open>begin < end\<close>, and then \<^verbatim>\<open>required\<close> maps a byte
    offset to \<^verbatim>\<open>True\<close> exactly when the offset lies in one of the listed half-open ranges
    \<open>[begin, end)\<close>, and to nothing otherwise.
\<close>

theorem write_share_chunk_progress:
  assumes "encode_si lib storage_index = Inr si"
    and "ContentRange_to_header lib offset (offset + int (length chunk_data)) = Inr cr"
    and "StorageClient_request lib c ''PATCH'' (share_url lib c si share_number)
           None None (Some upload_secret)
           (Some (Headers_init [(''content-range'', [cr])])) (Some chunk_data) w = (Inr resp, w')"
  shows "(code resp \<noteq> 200 \<and> code resp \<noteq> 201 \<longrightarrow>
            write_share_chunk lib c storage_index share_number upload_secret offset chunk_data w
              = (Inl (ClientException (code resp) None), w'))
       \<and> (\<forall>p. write_share_chunk lib c storage_index share_number upload_secret offset chunk_data w
                = (Inr p, w') \<longrightarrow>
             (code resp = 200 \<or> code resp = 201) \<and>
             finished p = (code resp = 201) \<and>
             (\<exists>body req chunks.
                loads lib (content resp) = Inr body \<and>
                py_getitem body ''required'' = Inr req \<and>
                py_iter req = Inr chunks \<and>
                list_all2 listed_as chunks (required p)))
       \<and> (\<forall>body req chunks.
             (code resp = 200 \<or> code resp = 201) \<and>
             loads lib (content resp) = Inr body \<and>
             py_getitem body ''required'' = Inr req \<and>
             py_iter req = Inr chunks \<longrightarrow>
             (\<forall>ranges.
                list_all2 listed_as chunks ranges \<and>
                (\<forall>n < length ranges.
                   RangeMap_set lib (take n ranges) True (fst (ranges ! n)) (fst (snd (ranges ! n)))
                     = Inr (take (Suc n) ranges)) \<longrightarrow>
                write_share_chunk lib c storage_index share_number upload_secret offset
                  chunk_data w
                  = (Inr \<lparr>finished = (code resp = 201), required = ranges\<rparr>, w'))
             \<and> ((\<forall>chunk \<in> set chunks. \<exists>a b.
                    py_getitem chunk ''begin'' = Inr (PInt a) \<and>
                    py_getitem chunk ''end'' = Inr (PInt b) \<and> a < b) \<longrightarrow>
                 (\<exists>p. write_share_chunk lib c storage_index share_number upload_secret offset
                         chunk_data w = (Inr p, w') \<and>
                       finished p = (code resp = 201) \<and>
                       list_all2 listed_as chunks (required p) \<and>
                       (\<forall>x. RangeMap_get (required p) x =
                          (if \<exists>chunk \<in> set chunks. listed_range_contains chunk x
                           then Some True else None)))))"
proof -
  let ?W = "write_share_chunk lib c storage_index share_number upload_secret offset chunk_data w"
  have call: "?W = (write_share_chunk_result lib resp, w')"
    using assms by (simp add: write_share_chunk_def)
  have bad: "code resp \<noteq> 200 \<and> code resp \<noteq> 201 \<longrightarrow>
      ?W = (Inl (ClientException (code resp) None), w')"
    by (simp add: call write_share_chunk_result_status)
  have returned: "?W = (Inr p, w') \<longrightarrow>
             (code resp = 200 \<or> code resp = 201) \<and>
             finished p = (code resp = 201) \<and>
             (\<exists>body req chunks.
                loads lib (content resp) = Inr body \<and>
                py_getitem body ''required'' = Inr req \<and>
                py_iter req = Inr chunks \<and>
                list_all2 listed_as chunks (required p))" for p
    using write_share_chunk_result_Inr [of lib resp p] by (simp add: call)
  have accepted: "?W = (Inr \<lparr>finished = (code resp = 201), required = ranges\<rparr>, w')"
    if ok: "code resp = 200 \<or> code resp = 201"
      and body: "loads lib (content resp) = Inr body"
      and req: "py_getitem body ''required'' = Inr req"
      and chunks: "py_iter req = Inr chunks"
      and listed: "list_all2 listed_as chunks ranges"
      and sets: "\<forall>n < length ranges.
                   RangeMap_set lib (take n ranges) True (fst (ranges ! n)) (fst (snd (ranges ! n)))
                     = Inr (take (Suc n) ranges)"
    for body req chunks ranges
  proof -
    from sets have "\<forall>n < length ranges.
        RangeMap_set lib (RangeMap_new @ take n ranges) True (fst (ranges ! n))
          (fst (snd (ranges ! n))) = Inr (RangeMap_new @ take (Suc n) ranges)"
      by (simp add: RangeMap_new_def)
    from set_required_accepted [OF listed this]
    have "set_required lib chunks RangeMap_new = Inr ranges"
      by (simp add: RangeMap_new_def)
    then show ?thesis
      by (simp add: call write_share_chunk_result_decoded [OF ok body req chunks])
  qed
  have offsets: "\<exists>p. ?W = (Inr p, w') \<and>
                       finished p = (code resp = 201) \<and>
                       list_all2 listed_as chunks (required p) \<and>
                       (\<forall>x. RangeMap_get (required p) x =
                          (if \<exists>chunk \<in> set chunks. listed_range_contains chunk x
                           then Some True else None))"
    if ok: "code resp = 200 \<or> code resp = 201"
      and body: "loads lib (content resp) = Inr body"
      and req: "py_getitem body ''required'' = Inr req"
      and chunks: "py_iter req = Inr chunks"
      and ints: "\<forall>chunk \<in> set chunks. \<exists>a b.
                    py_getitem chunk ''begin'' = Inr (PInt a) \<and>
                    py_getitem chunk ''end'' = Inr (PInt b) \<and> a < b"
    for body req chunks
  proof -
    have "offsets_only RangeMap_new"
      by (simp add: offsets_only_def RangeMap_new_def)
    from set_required_offsets [OF this ints, of lib] obtain ranges where
      stored: "set_required lib chunks RangeMap_new = Inr ranges" and
      listed: "list_all2 listed_as chunks ranges"
      by (auto simp add: RangeMap_new_def)
    let ?p = "\<lparr>finished = (code resp = 201), required = ranges\<rparr>"
    have "?W = (Inr ?p, w')"
      by (simp add: call write_share_chunk_result_decoded [OF ok body req chunks] stored)
    moreover have "\<forall>x. RangeMap_get (required ?p) x =
        (if \<exists>chunk \<in> set chunks. listed_range_contains chunk x then Some True else None)"
      using RangeMap_get_listed [OF listed] by simp
    ultimately show ?thesis
      using listed by (intro exI [of _ ?p]) simp
  qed
  show ?thesis
    using bad returned accepted offsets by blast
qed

text \<open>
  Four instances: a 200 answer listing \<open>[0, 10)\<close> and \<open>[50, 100)\<close>, so that offsets 5
  and 60 are required and offset 10 is not; a 201 answer with nothing left to upload; a
  500 answer; and a 200 answer whose one entry has text bounds, which the stand-in for
  \<^verbatim>\<open>RangeMap.set\<close> accepts.
\<close>

theorem write_share_chunk_progress_witness:
  "map_sum id (\<lambda>p. (finished p, map (RangeMap_get (required p)) [5, 10, 60]))
     (fst (write_share_chunk
        (stub_library (stub_loads
           [(''A'', PDict [(PStr ''required'',
               PList [PDict [(PStr ''begin'', PInt 0), (PStr ''end'', PInt 10)],
                      PDict [(PStr ''begin'', PInt 50), (PStr ''end'', PInt 100)]])]),
            (''B'', PDict [(PStr ''required'', PList [])]),
            (''C'', PDict [(PStr ''required'',
               PList [PDict [(PStr ''begin'', PStr ''a''), (PStr ''end'', PStr ''b'')]])])]))
        (stub_client [\<lparr>code = 200, phrase = ''OK'', content = ''A''\<rparr>])
        ''si'' 1 ''secret'' 50 ''data'' []))
   = Inr (False, [Some True, None, Some True])
   \<and> fst (write_share_chunk
        (stub_library (stub_loads
           [(''A'', PDict [(PStr ''required'',
               PList [PDict [(PStr ''begin'', PInt 0), (PStr ''end'', PInt 10)],
                      PDict [(PStr ''begin'', PInt 50), (PStr ''end'', PInt 100)]])]),
            (''B'', PDict [(PStr ''required'', PList [])]),
            (''C'', PDict [(PStr ''required'',
               PList [PDict [(PStr ''begin'', PStr ''a''), (PStr ''end'', PStr ''b'')]])])]))
        (stub_client [\<lparr>code = 201, phrase = ''Created'', content = ''B''\<rparr>])
        ''si'' 1 ''secret'' 50 ''data'' [])
   = Inr \<lparr>finished = True, required = []\<rparr>
   \<and> fst (write_share_chunk
        (stub_library (stub_loads
           [(''A'', PDict [(PStr ''required'',
               PList [PDict [(PStr ''begin'', PInt 0), (PStr ''end'', PInt 10)],
                      PDict [(PStr ''begin'', PInt 50), (PStr ''end'', PInt 100)]])]),
            (''B'', PDict [(PStr ''required'', PList [])]),
            (''C'', PDict [(PStr ''required'',
               PList [PDict [(PStr ''begin'', PStr ''a''), (PStr ''end'', PStr ''b'')]])])]))
        (stub_client [\<lparr>code = 500, phrase = ''Internal Server Error'', content = ''A''\<rparr>])
        ''si'' 1 ''secret'' 50 ''data'' [])
   = Inl (ClientException 500 None)
   \<and> fst (write_share_chunk
        (stub_library (stub_loads
           [(''A'', PDict [(PStr ''required'',
               PList [PDict [(PStr ''begin'', PInt 0), (PStr ''end'', PInt 10)],
                      PDict [(PStr ''begin'', PInt 50), (PStr ''end'', PInt 100)]])]),
            (''B'', PDict [(PStr ''required'', PList [])]),
            (''C'', PDict [(PStr ''required'',
               PList [PDict [(PStr ''begin'', PStr ''a''), (PStr ''end'', PStr ''b'')]])])]))
        (stub_client [\<lparr>code = 200, phrase = ''OK'', content = ''C''\<rparr>])
        ''si'' 1 ''secret'' 50 ''data'' [])
   = Inr \<lparr>finished = False, required = [(PStr ''a'', PStr ''b'', True)]\<rparr>"
proof -
  let ?c1 = "PDict [(PStr ''begin'', PInt 0), (PStr ''end'', PInt 10)]"
  let ?c2 = "PDict [(PStr ''begin'', PInt 50), (PStr ''end'', PInt 100)]"
  let ?bodyA = "PDict [(PStr ''required'', PList [?c1, ?c2])]"
  let ?bodyB = "PDict [(PStr ''required'', PList [])]"
  let ?c3 = "PDict [(PStr ''begin'', PStr ''a''), (PStr ''end'', PStr ''b'')]"
  let ?bodyC = "PDict [(PStr ''required'', PList [?c3])]"
  let ?lib = "stub_library (stub_loads [(''A'', ?bodyA), (''B'', ?bodyB), (''C'', ?bodyC)])"
  let ?rtext = "\<lparr>code = 200, phrase = ''OK'', content = ''C''\<rparr>"
  let ?r200 = "\<lparr>code = 200, phrase = ''OK'', content = ''A''\<rparr>"
  let ?r201 = "\<lparr>code = 201, phrase = ''Created'', content = ''B''\<rparr>"
  let ?r500 = "\<lparr>code = 500, phrase = ''Internal Server Error'', content = ''A''\<rparr>"
  let ?call = "\<lambda>r. StorageClient_request ?lib (stub_client [r]) ''PATCH''
           (share_url ?lib (stub_client [r]) ''si'' 1) None None (Some ''secret'')
           (Some (Headers_init [(''content-range'', [''bytes''])])) (Some ''data'') []"
  let ?attempt = "\<lambda>r. write_share_chunk ?lib (stub_client [r]) ''si'' 1 ''secret'' 50 ''data'' []"
  have si: "encode_si ?lib ''si'' = Inr ''si''"
    by (simp add: encode_si_stub is_ascii_def)
  have cr: "ContentRange_to_header ?lib 50 (50 + int (length ''data'')) = Inr ''bytes''"
    by (simp add: stub_library_sel)
  have "fst (?call ?r200) = Inr ?r200"
    by (simp add: stub_request_fst)
  then obtain w1 where a1: "?call ?r200 = (Inr ?r200, w1)"
    by (cases "?call ?r200") simp
  have "fst (?call ?r201) = Inr ?r201"
    by (simp add: stub_request_fst)
  then obtain w2 where a2: "?call ?r201 = (Inr ?r201, w2)"
    by (cases "?call ?r201") simp
  have "fst (?call ?r500) = Inr ?r500"
    by (simp add: stub_request_fst)
  then obtain w3 where a3: "?call ?r500 = (Inr ?r500, w3)"
    by (cases "?call ?r500") simp
  have "fst (?call ?rtext) = Inr ?rtext"
    by (simp add: stub_request_fst)
  then obtain w4 where a4: "?call ?rtext = (Inr ?rtext, w4)"
    by (cases "?call ?rtext") simp
  note ttext = write_share_chunk_progress [OF si cr a4]
  note t200 = write_share_chunk_progress [OF si cr a1]
  note t201 = write_share_chunk_progress [OF si cr a2]
  note t500 = write_share_chunk_progress [OF si cr a3]
  have bad: "fst (?attempt ?r500) = Inl (ClientException 500 None)"
    using t500 by simp
  have decodedA: "(code ?r200 = 200 \<or> code ?r200 = 201) \<and>
      loads ?lib (content ?r200) = Inr ?bodyA \<and>
      py_getitem ?bodyA ''required'' = Inr (PList [?c1, ?c2]) \<and>
      py_iter (PList [?c1, ?c2]) = Inr [?c1, ?c2]"
    by (simp add: stub_library_sel stub_loads_def)
  have ints: "\<forall>chunk \<in> set [?c1, ?c2]. \<exists>a b.
      py_getitem chunk ''begin'' = Inr (PInt a) \<and> py_getitem chunk ''end'' = Inr (PInt b) \<and> a < b"
    by simp
  from t200 [THEN conjunct2, THEN conjunct2, rule_format, OF decodedA, THEN conjunct2,
      THEN mp, OF ints]
  obtain p where
    p: "?attempt ?r200 = (Inr p, w1)" and
    fin: "finished p = (code ?r200 = 201)" and
    get: "\<forall>x. RangeMap_get (required p) x =
            (if \<exists>chunk \<in> set [?c1, ?c2]. listed_range_contains chunk x
             then Some True else None)"
    by blast
  have partial: "map_sum id (\<lambda>p. (finished p, map (RangeMap_get (required p)) [5, 10, 60]))
      (fst (?attempt ?r200)) = Inr (False, [Some True, None, Some True])"
    using fin by (simp add: p get listed_range_contains_def in_range_def)
  have decodedB: "(code ?r201 = 200 \<or> code ?r201 = 201) \<and>
      loads ?lib (content ?r201) = Inr ?bodyB \<and>
      py_getitem ?bodyB ''required'' = Inr (PList []) \<and>
      py_iter (PList []) = Inr []"
    by (simp add: stub_library_sel stub_loads_def)
  have none: "list_all2 listed_as [] [] \<and>
      (\<forall>n < length ([] :: RangeMap).
         RangeMap_set ?lib (take n []) True (fst ([] ! n)) (fst (snd ([] ! n)))
           = Inr (take (Suc n) []))"
    by simp
  from t201 [THEN conjunct2, THEN conjunct2, rule_format, OF decodedB, THEN conjunct1,
      THEN spec, THEN mp, OF none]
  have complete: "fst (?attempt ?r201) = Inr \<lparr>finished = True, required = []\<rparr>"
    by simp
  have decodedC: "(code ?rtext = 200 \<or> code ?rtext = 201) \<and>
      loads ?lib (content ?rtext) = Inr ?bodyC \<and>
      py_getitem ?bodyC ''required'' = Inr (PList [?c3]) \<and>
      py_iter (PList [?c3]) = Inr [?c3]"
    by (simp add: stub_library_sel stub_loads_def)
  have one: "list_all2 listed_as [?c3] [(PStr ''a'', PStr ''b'', True)] \<and>
      (\<forall>n < length [(PStr ''a'', PStr ''b'', True)].
         RangeMap_set ?lib (take n [(PStr ''a'', PStr ''b'', True)]) True
           (fst ([(PStr ''a'', PStr ''b'', True)] ! n))
           (fst (snd ([(PStr ''a'', PStr ''b'', True)] ! n)))
           = Inr (take (Suc n) [(PStr ''a'', PStr ''b'', True)]))"
    by (simp add: listed_as_def RangeMap_set_def stub_library_sel stub_RangeMap_refuses_def
        py_less_eq_def)
  from ttext [THEN conjunct2, THEN conjunct2, rule_format, OF decodedC, THEN conjunct1,
      THEN spec, THEN mp, OF one]
  have textual: "fst (?attempt ?rtext)
      = Inr \<lparr>finished = False, required = [(PStr ''a'', PStr ''b'', True)]\<rparr>"
    by simp
  from partial complete bad textual show ?thesis by blast
qed

subsection \<open>C3: a failed write and its retry\<close>



subsection \<open>C6: create\<close>

lemma content_type_headers:
  "header_values (Headers_init [(''content-type'', [''application/cbor''])]) ''Authorization'' = []"
  "header_values (Headers_init [(''content-type'', [''application/cbor''])]) ''X-Tahoe-Authorization'' = []"
  "getRawHeaders (Headers_init [(''content-type'', [''application/cbor''])]) ''content-type''
     = Some [''application/cbor'']"
  by (simp_all add: Headers_init_def header_values_def getRawHeaders_def lower_names)

text \<open>
  C6. For a storage index whose textual encoding is ASCII, \<^verbatim>\<open>create\<close> hands the transport
  one request: a POST to \<^verbatim>\<open>/v1/immutable/<encoded storage index>\<close> under the base URL, with
  the bearer header, the renewal, cancellation and upload secrets as the three
  \<^verbatim>\<open>X-Tahoe-Authorization\<close> values, content type \<^verbatim>\<open>application/cbor\<close>, and as body the
  encoding of the map of \<^verbatim>\<open>share-numbers\<close> and \<^verbatim>\<open>allocated-size\<close>. A transport failure is
  passed on. On a status in 200..299 whose body decodes to a map with the two fields, the
  result has \<^verbatim>\<open>already_have\<close> and \<^verbatim>\<open>allocated\<close> equal to the fields \<^verbatim>\<open>already-have\<close> and
  \<^verbatim>\<open>allocated\<close>; on any other status the call fails with \<^verbatim>\<open>ClientException(status,
  phrase)\<close>. The outcome depends on this answer alone: the client keeps no record of the
  storage indexes it has created, so an earlier creation is no error of its own.
\<close>

theorem create_request_and_result:
  assumes "is_ascii (si_b2a lib storage_index)"
  shows "\<exists>h. header_values h ''Authorization'' = [swissnum_auth_header lib (swissnum c)]
     \<and> header_values h ''X-Tahoe-Authorization''
           = secret_header LEASE_RENEW (Some lease_renew_secret)
             @ secret_header LEASE_CANCEL (Some lease_cancel_secret)
             @ secret_header UPLOAD (Some upload_secret)
     \<and> header_values h ''content-type'' = [''application/cbor'']
     \<and> (let rq = \<lparr>req_method = ''POST'',
                    req_url = click lib (base_url c) (''/v1/immutable/'' @ si_b2a lib storage_index),
                    req_headers = h,
                    req_data = Some (dumps lib
                      (PDict [(PStr ''share-numbers'', PSet (map PInt share_numbers)),
                              (PStr ''allocated-size'', PInt allocated_size)]))\<rparr>;
              result = create lib c storage_index share_numbers allocated_size
                         upload_secret lease_renew_secret lease_cancel_secret w
          in (\<forall>e w'. treq c rq w = (Inl e, w') \<longrightarrow> result = (Inl e, w'))
           \<and> (\<forall>resp w'. treq c rq w = (Inr resp, w') \<longrightarrow>
                 (if 199 < code resp \<and> code resp < 300
                  then (\<forall>decoded a b.
                          loads lib (content resp) = Inr decoded \<and>
                          py_getitem decoded ''already-have'' = Inr a \<and>
                          py_getitem decoded ''allocated'' = Inr b \<longrightarrow>
                          result = (Inr \<lparr>already_have = a, allocated = b\<rparr>, w'))
                  else result = (Inl (ClientException (code resp) (Some (phrase resp))), w'))))"
proof -
  let ?u = "click lib (base_url c) (''/v1/immutable/'' @ si_b2a lib storage_index)"
  let ?m = "dumps lib (PDict [(PStr ''share-numbers'', PSet (map PInt share_numbers)),
                              (PStr ''allocated-size'', PInt allocated_size)])"
  let ?hs = "Headers_init [(''content-type'', [''application/cbor''])]"
  have si: "encode_si lib storage_index = Inr (si_b2a lib storage_index)"
    using assms by (simp add: encode_si_def decode_ascii_def)
  obtain h where
    call: "StorageClient_request lib c ''POST'' ?u (Some lease_renew_secret)
             (Some lease_cancel_secret) (Some upload_secret) (Some ?hs) (Some ?m) w
           = treq c \<lparr>req_method = ''POST'', req_url = ?u, req_headers = h, req_data = Some ?m\<rparr> w"
    and auth: "header_values h ''Authorization''
           = header_values ?hs ''Authorization'' @ [swissnum_auth_header lib (swissnum c)]"
    and secrets: "header_values h ''X-Tahoe-Authorization''
           = header_values ?hs ''X-Tahoe-Authorization''
             @ secret_header LEASE_RENEW (Some lease_renew_secret)
             @ secret_header LEASE_CANCEL (Some lease_cancel_secret)
             @ secret_header UPLOAD (Some upload_secret)"
    and other: "\<forall>name. lower name \<noteq> ''authorization'' \<and> lower name \<noteq> ''x-tahoe-authorization''
           \<longrightarrow> getRawHeaders h name = getRawHeaders ?hs name"
    using request_headers [of lib c "''POST''" ?u "Some lease_renew_secret"
        "Some lease_cancel_secret" "Some upload_secret" "Some ?hs" "Some ?m" w]
    by auto
  have ctype: "header_values h ''content-type'' = [''application/cbor'']"
  proof -
    have "getRawHeaders h ''content-type'' = getRawHeaders ?hs ''content-type''"
      using other by (simp add: lower_names)
    then show ?thesis
      by (simp add: header_values_def content_type_headers)
  qed
  let ?rq = "\<lparr>req_method = ''POST'', req_url = ?u, req_headers = h, req_data = Some ?m\<rparr>"
  have create_eq: "create lib c storage_index share_numbers allocated_size
                         upload_secret lease_renew_secret lease_cancel_secret w
      = (case treq c ?rq w of
           (Inl e, w') \<Rightarrow> (Inl e, w')
         | (Inr resp, w') \<Rightarrow> (create_result lib resp, w'))"
    using call by (simp add: create_def si StorageClient_url_def Let_def)
  have transport: "treq c ?rq w = (Inl e, w') \<longrightarrow>
      create lib c storage_index share_numbers allocated_size
        upload_secret lease_renew_secret lease_cancel_secret w = (Inl e, w')" for e w'
    by (simp add: create_eq)
  have answered: "treq c ?rq w = (Inr resp, w') \<longrightarrow>
      (if 199 < code resp \<and> code resp < 300
       then (\<forall>decoded a b.
               loads lib (content resp) = Inr decoded \<and>
               py_getitem decoded ''already-have'' = Inr a \<and>
               py_getitem decoded ''allocated'' = Inr b \<longrightarrow>
               create lib c storage_index share_numbers allocated_size
                 upload_secret lease_renew_secret lease_cancel_secret w
                 = (Inr \<lparr>already_have = a, allocated = b\<rparr>, w'))
       else create lib c storage_index share_numbers allocated_size
              upload_secret lease_renew_secret lease_cancel_secret w
              = (Inl (ClientException (code resp) (Some (phrase resp))), w'))" for resp w'
    by (simp add: create_eq create_result_def decode_cbor_def)
  from auth have auth': "header_values h ''Authorization'' = [swissnum_auth_header lib (swissnum c)]"
    by (simp add: content_type_headers)
  from secrets have secrets': "header_values h ''X-Tahoe-Authorization''
           = secret_header LEASE_RENEW (Some lease_renew_secret)
             @ secret_header LEASE_CANCEL (Some lease_cancel_secret)
             @ secret_header UPLOAD (Some upload_secret)"
    by (simp add: content_type_headers)
  show ?thesis
    unfolding Let_def
    using auth' secrets' ctype transport answered by blast
qed

text \<open>
  An instance: the server answers 201 with nothing already stored and shares 0, 1, 2
  allocated; the stub transport has seen the POST with the three secret headers.
\<close>

theorem create_request_and_result_witness:
  "fst (create
        (stub_library (stub_loads [(''R'', PDict [(PStr ''already-have'', PSet []),
            (PStr ''allocated'', PSet [PInt 0, PInt 1, PInt 2])])]))
        (stub_client [\<lparr>code = 201, phrase = ''Created'', content = ''R''\<rparr>])
        ''si'' [0, 1, 2] 100 ''u'' ''r'' ''c'' [])
   = Inr \<lparr>already_have = PSet [], allocated = PSet [PInt 0, PInt 1, PInt 2]\<rparr>
   \<and> map (\<lambda>rq. (req_method rq, path (req_url rq),
                 header_values (req_headers rq) ''X-Tahoe-Authorization'', req_data rq))
       (snd (create
        (stub_library (stub_loads [(''R'', PDict [(PStr ''already-have'', PSet []),
            (PStr ''allocated'', PSet [PInt 0, PInt 1, PInt 2])])]))
        (stub_client [\<lparr>code = 201, phrase = ''Created'', content = ''R''\<rparr>])
        ''si'' [0, 1, 2] 100 ''u'' ''r'' ''c'' []))
   = [(''POST'', [''/v1/immutable/si''],
       [''lease-renew-secret cg=='', ''lease-cancel-secret Yw=='', ''upload-secret dQ==''],
       Some ''cbor'')]"
proof -
  let ?lib = "stub_library (stub_loads [(''R'', PDict [(PStr ''already-have'', PSet []),
            (PStr ''allocated'', PSet [PInt 0, PInt 1, PInt 2])])])"
  let ?r = "\<lparr>code = 201, phrase = ''Created'', content = ''R''\<rparr>"
  let ?c = "stub_client [?r]"
  let ?result = "create ?lib ?c ''si'' [0, 1, 2] 100 ''u'' ''r'' ''c'' []"
  have ascii: "is_ascii (si_b2a ?lib ''si'')"
    by (simp add: stub_library_sel is_ascii_def)
  from create_request_and_result [OF ascii, of ?c "''r''" "''c''" "''u''" "[0, 1, 2]" 100 "[]",
      unfolded Let_def]
  obtain h where
    secrets: "header_values h ''X-Tahoe-Authorization''
           = secret_header LEASE_RENEW (Some ''r'') @ secret_header LEASE_CANCEL (Some ''c'')
             @ secret_header UPLOAD (Some ''u'')"
    and answered: "\<forall>resp w'.
       treq ?c \<lparr>req_method = ''POST'',
                 req_url = click ?lib (base_url ?c) (''/v1/immutable/'' @ si_b2a ?lib ''si''),
                 req_headers = h,
                 req_data = Some (dumps ?lib
                   (PDict [(PStr ''share-numbers'', PSet (map PInt [0, 1, 2])),
                           (PStr ''allocated-size'', PInt 100)]))\<rparr> [] = (Inr resp, w') \<longrightarrow>
       (if 199 < code resp \<and> code resp < 300
        then (\<forall>decoded a b.
                loads ?lib (content resp) = Inr decoded \<and>
                py_getitem decoded ''already-have'' = Inr a \<and>
                py_getitem decoded ''allocated'' = Inr b \<longrightarrow>
                ?result = (Inr \<lparr>already_have = a, allocated = b\<rparr>, w'))
        else ?result = (Inl (ClientException (code resp) (Some (phrase resp))), w'))"
    by blast
  let ?rq = "\<lparr>req_method = ''POST'',
                 req_url = click ?lib (base_url ?c) (''/v1/immutable/'' @ si_b2a ?lib ''si''),
                 req_headers = h,
                 req_data = Some (dumps ?lib
                   (PDict [(PStr ''share-numbers'', PSet (map PInt [0, 1, 2])),
                           (PStr ''allocated-size'', PInt 100)]))\<rparr>"
  have sent: "treq ?c ?rq [] = (Inr ?r, [?rq])"
    by (simp add: stub_client_def stub_treq_def)
  have decoded: "loads ?lib (content ?r)
      = Inr (PDict [(PStr ''already-have'', PSet []),
                    (PStr ''allocated'', PSet [PInt 0, PInt 1, PInt 2])])"
    by (simp add: stub_library_sel stub_loads_def)
  have "199 < code ?r \<and> code ?r < 300"
    by simp
  with answered [rule_format, OF sent] decoded
  have result: "?result = (Inr \<lparr>already_have = PSet [],
                                   allocated = PSet [PInt 0, PInt 1, PInt 2]\<rparr>, [?rq])"
    by simp
  have url: "path (req_url ?rq) = [''/v1/immutable/si'']"
    by (simp add: stub_library_def)
  have body: "req_data ?rq = Some ''cbor''"
    by (simp add: stub_library_sel)
  have hdrs: "header_values h ''X-Tahoe-Authorization''
      = [''lease-renew-secret cg=='', ''lease-cancel-secret Yw=='', ''upload-secret dQ=='']"
    by (simp add: secrets secret_header_def b64_digit_def b64_alphabet_def)
  from result url body hdrs show ?thesis
    by simp
qed

subsection \<open>C4: the peer permutation\<close>

lemma sort_mset_cong:
  fixes xs ys :: "('a::linorder) list"
  assumes "mset xs = mset ys"
  shows "sort xs = sort ys"
proof (rule properties_for_sort)
  show "mset (sort ys) = mset xs" using assms by simp
  show "sorted (sort ys)" by simp
qed

lemma get_permuted_peers_order:
  assumes "distinct xs" "distinct ys" "set xs = set ys"
  shows "get_permuted_peers h key xs = get_permuted_peers h key ys"
proof -
  from assms have "mset xs = mset ys"
    by (simp add: set_eq_iff_mset_eq_distinct)
  then have "mset (map (\<lambda>peerid. (h key peerid, peerid)) xs)
      = mset (map (\<lambda>peerid. (h key peerid, peerid)) ys)"
    by simp
  then show ?thesis
    unfolding get_permuted_peers_def by (rule sort_mset_cong)
qed

lemma set_permute: "set (permute h key xs) = set xs"
  by (force simp add: permute_def get_permuted_peers_def)

text \<open>
  C4. The permutation is a function of the hash, the storage index and the candidates, and
  of nothing a client or a process holds, so equal inputs give equal sequences in every
  client. Two listings of the same candidate set, in whatever order the candidates were
  inserted, are permuted to the same sequence; no candidates give the empty sequence; the
  sequence lists exactly the candidates, each once, in ascending order of score and then of
  identity.
\<close>

theorem permute_deterministic:
  "(distinct xs \<and> distinct ys \<and> set xs = set ys \<longrightarrow> permute h key xs = permute h key ys)
   \<and> permute h key [] = []
   \<and> set (permute h key xs) = set xs
   \<and> length (permute h key xs) = length xs
   \<and> sorted (get_permuted_peers h key xs)"
proof -
  have "permute h key xs = permute h key ys" if "distinct xs" "distinct ys" "set xs = set ys"
    using get_permuted_peers_order [OF that, of h key] by (simp add: permute_def)
  moreover have "permute h key [] = []"
    by (simp add: permute_def get_permuted_peers_def)
  moreover have "length (permute h key xs) = length xs"
    by (simp add: permute_def get_permuted_peers_def)
  moreover have "sorted (get_permuted_peers h key xs)"
    by (simp add: get_permuted_peers_def)
  ultimately show ?thesis
    using set_permute [of h key xs] by blast
qed

text \<open>
  An instance: five peers listed in two orders, scored by \<open>(key + peerid) mod 5\<close>.
\<close>

theorem permute_deterministic_witness:
  "permute (\<lambda>key peerid. (key + peerid) mod 5) (3::nat) [4, 3, 2, 1, 0::nat]
     = permute (\<lambda>key peerid. (key + peerid) mod 5) 3 [0, 1, 2, 3, 4]
   \<and> permute (\<lambda>key peerid. (key + peerid) mod 5) (3::nat) [0, 1, 2, 3, 4::nat] = [2, 3, 4, 0, 1]"
proof -
  have "distinct [4, 3, 2, 1, 0::nat] \<and> distinct [0, 1, 2, 3, 4::nat]
      \<and> set [4, 3, 2, 1, 0::nat] = set [0, 1, 2, 3, 4]"
    by auto
  then have "permute (\<lambda>key peerid. (key + peerid) mod 5) (3::nat) [4, 3, 2, 1, 0::nat]
     = permute (\<lambda>key peerid. (key + peerid) mod 5) 3 [0, 1, 2, 3, 4]"
    using permute_deterministic [of "[4, 3, 2, 1, 0::nat]" "[0, 1, 2, 3, 4]"
        "\<lambda>key peerid. (key + peerid) mod 5" "3::nat"]
    by blast
  moreover have "permute (\<lambda>key peerid. (key + peerid) mod 5) (3::nat) [0, 1, 2, 3, 4::nat]
      = [2, 3, 4, 0, 1]"
    by code_simp
  ultimately show ?thesis by blast
qed

end
